theory Spec2Isabelle
  imports Main "HOL-Library.Word"
begin

section \<open>The MAPIP addressing-mode matcher\<close>

text \<open>
  A shallow embedding of the instruction selector in
  \<^verbatim>\<open>src/lib/Support/ToolRunner.cpp\<close> (the part headed
  \<^verbatim>\<open>MAPIPISelDAGToDAG.cpp\<close>): the record \<^verbatim>\<open>MAPIPISelAddressMode\<close> and the
  functions \<^verbatim>\<open>MatchWrapper\<close>, \<^verbatim>\<open>MatchAddressBase\<close>, \<^verbatim>\<open>MatchAddress\<close>,
  \<^verbatim>\<open>SelectAddr\<close>, \<^verbatim>\<open>SelectInlineAsmMemoryOperand\<close> and \<^verbatim>\<open>Select\<close>.
  The C++ functions return \<^verbatim>\<open>true\<close> when the match FAILS; the model keeps
  that convention. A \<^verbatim>\<open>bool\<close> function that updates its \<^verbatim>\<open>AM\<close> argument by
  reference returns the pair of the flag and the updated mode.
\<close>

subsection \<open>Nodes of the selection DAG\<close>

text \<open>
  A node as the matcher reads it: one constructor per node class that the matcher
  tells apart, with the payload it reads. \<open>ISD_Constant v\<close> carries the result of
  \<^verbatim>\<open>getSExtValue()\<close> (an \<^verbatim>\<open>int64_t\<close>); \<open>ISD_TargetConstant\<close> is the other opcode of
  class \<^verbatim>\<open>ConstantSDNode\<close>, which \<^verbatim>\<open>dyn_cast<ConstantSDNode>\<close> accepts but the
  opcode switch does not. The five symbol classes carry \<^verbatim>\<open>getGlobal()\<close> and
  \<^verbatim>\<open>getOffset()\<close> (an \<^verbatim>\<open>int64_t\<close>); \<^verbatim>\<open>getConstVal()\<close>, \<^verbatim>\<open>getAlignment()\<close> and
  \<^verbatim>\<open>getOffset()\<close> (an \<^verbatim>\<open>int\<close>); \<^verbatim>\<open>getSymbol()\<close>; \<^verbatim>\<open>getIndex()\<close>;
  \<^verbatim>\<open>getBlockAddress()\<close>. Pointers to IR objects are natural-number identities and
  are never null inside a node. \<open>OtherNode opc ops\<close> is a node of any other opcode.
  The matcher only reads the structure below a node, so the expression is a tree here.
\<close>

datatype SDNode =
    ISD_Constant "64 word"
  | ISD_TargetConstant "64 word"
  | GlobalAddressSDNode nat "64 word"
  | ConstantPoolSDNode nat nat "32 word"
  | ExternalSymbolSDNode string
  | JumpTableSDNode int
  | BlockAddressSDNode nat
  | ISD_FrameIndex int
  | MAPIPISD_Wrapper SDNode
  | ISD_ADD SDNode SDNode
  | ISD_OR SDNode SDNode
  | OtherNode nat "SDNode list"

fun operands :: "SDNode \<Rightarrow> SDNode list" where
  "operands (MAPIPISD_Wrapper N0) = [N0]"
| "operands (ISD_ADD N0 N1) = [N0, N1]"
| "operands (ISD_OR N0 N1) = [N0, N1]"
| "operands (OtherNode opc ops) = ops"
| "operands _ = []"

text \<open>The failures that stop the compiler: a failed \<^verbatim>\<open>cast<>\<close>, an operand index out
  of range, a failed \<^verbatim>\<open>assert\<close>, a node pointer that is not in the DAG.\<close>

datatype error = CastFailure | OperandOutOfRange | AssertionFailure | DanglingNode

definition getOperand :: "SDNode \<Rightarrow> nat \<Rightarrow> error + SDNode" where
  "getOperand N i = (if i < length (operands N) then Inr (operands N ! i) else Inl OperandOutOfRange)"

fun dyn_cast_ConstantSDNode :: "SDNode \<Rightarrow> 64 word option" where
  "dyn_cast_ConstantSDNode (ISD_Constant v) = Some v"
| "dyn_cast_ConstantSDNode (ISD_TargetConstant v) = Some v"
| "dyn_cast_ConstantSDNode _ = None"

subsection \<open>The addressing mode\<close>

datatype BaseKind = RegBase | FrameIndexBase

text \<open>
  \<^verbatim>\<open>struct MAPIPISelAddressMode\<close>. \<open>Base_Reg\<close> is the \<^verbatim>\<open>SDValue\<close> \<^verbatim>\<open>Base.Reg\<close>
  (\<open>None\<close> when \<^verbatim>\<open>getNode()\<close> is null); the pointer fields are \<open>None\<close> when null;
  \<open>JT\<close> is \<open>-1\<close> when there is no jump table. \<open>Disp\<close> is an \<^verbatim>\<open>int16_t\<close>.
\<close>

record MAPIPISelAddressMode =
  BaseType :: BaseKind
  Base_Reg :: "SDNode option"
  Base_FrameIndex :: int
  Disp :: "16 word"
  GV :: "nat option"
  CP :: "nat option"
  BlockAddr :: "nat option"
  ES :: "string option"
  JT :: int
  Align :: nat

text \<open>The constructor. It does not initialise \<^verbatim>\<open>Base.FrameIndex\<close>: the argument is
  the value that field happens to hold.\<close>

definition new_MAPIPISelAddressMode :: "int \<Rightarrow> MAPIPISelAddressMode" where
  "new_MAPIPISelAddressMode fi =
     \<lparr> BaseType = RegBase, Base_Reg = None, Base_FrameIndex = fi, Disp = 0,
       GV = None, CP = None, BlockAddr = None, ES = None, JT = -1, Align = 0 \<rparr>"

definition hasSymbolicDisplacement :: "MAPIPISelAddressMode \<Rightarrow> bool" where
  "hasSymbolicDisplacement AM \<longleftrightarrow> GV AM \<noteq> None \<or> CP AM \<noteq> None \<or> ES AM \<noteq> None \<or> JT AM \<noteq> -1"

subsection \<open>MatchWrapper, MatchAddressBase, MatchAddress\<close>

text \<open>\<^verbatim>\<open>AM.Disp += x\<close> for a 64-bit or 32-bit \<open>x\<close>: the sum is converted back to
  \<^verbatim>\<open>int16_t\<close>, which keeps the low 16 bits.\<close>

definition MatchWrapper :: "SDNode \<Rightarrow> MAPIPISelAddressMode \<Rightarrow> error + (bool \<times> MAPIPISelAddressMode)" where
  "MatchWrapper N AM =
     (if hasSymbolicDisplacement AM then Inr (True, AM)
      else case getOperand N 0 of
        Inl e \<Rightarrow> Inl e
      | Inr N0 \<Rightarrow>
         (case N0 of
            GlobalAddressSDNode g off \<Rightarrow>
              Inr (False, AM\<lparr> GV := Some g, Disp := Disp AM + ucast off \<rparr>)
          | ConstantPoolSDNode c al off \<Rightarrow>
              Inr (False, AM\<lparr> CP := Some c, Align := al, Disp := Disp AM + ucast off \<rparr>)
          | ExternalSymbolSDNode s \<Rightarrow> Inr (False, AM\<lparr> ES := Some s \<rparr>)
          | JumpTableSDNode j \<Rightarrow> Inr (False, AM\<lparr> JT := j \<rparr>)
          | BlockAddressSDNode b \<Rightarrow> Inr (False, AM\<lparr> BlockAddr := Some b \<rparr>)
          | _ \<Rightarrow> Inl CastFailure))"

definition MatchAddressBase :: "SDNode \<Rightarrow> MAPIPISelAddressMode \<Rightarrow> bool \<times> MAPIPISelAddressMode" where
  "MatchAddressBase N AM =
     (if BaseType AM \<noteq> RegBase \<or> Base_Reg AM \<noteq> None then (True, AM)
      else (False, AM\<lparr> BaseType := RegBase, Base_Reg := Some N \<rparr>))"

text \<open>
  \<^verbatim>\<open>MatchAddress\<close>. The first argument is \<^verbatim>\<open>CurDAG->MaskedValueIsZero\<close>, which is
  not part of the file: \<open>mvz X C\<close> says that the bits of \<open>X\<close> at the set positions
  of the constant \<open>C\<close> are known to be zero. In the condition
  \<^verbatim>\<open>!MatchAddress(A, AM) && !MatchAddress(B, AM)\<close> the second call runs only when
  the first succeeded, on the mode the first left; the inner \<open>case\<close> of the
  addition rule is that condition, with the mode it leaves behind.
\<close>

fun MatchAddress :: "(SDNode \<Rightarrow> 64 word \<Rightarrow> bool) \<Rightarrow> SDNode \<Rightarrow> MAPIPISelAddressMode
    \<Rightarrow> error + (bool \<times> MAPIPISelAddressMode)" where
  "MatchAddress mvz (ISD_Constant Val) AM = Inr (False, AM\<lparr> Disp := Disp AM + ucast Val \<rparr>)"
| "MatchAddress mvz (MAPIPISD_Wrapper N0) AM =
     (case MatchWrapper (MAPIPISD_Wrapper N0) AM of
        Inl e \<Rightarrow> Inl e
      | Inr (failed, AM1) \<Rightarrow>
          if \<not> failed then Inr (False, AM1)
          else Inr (MatchAddressBase (MAPIPISD_Wrapper N0) AM1))"
| "MatchAddress mvz (ISD_FrameIndex FI) AM =
     (if BaseType AM = RegBase \<and> Base_Reg AM = None
      then Inr (False, AM\<lparr> BaseType := FrameIndexBase, Base_FrameIndex := FI \<rparr>)
      else Inr (MatchAddressBase (ISD_FrameIndex FI) AM))"
| "MatchAddress mvz (ISD_ADD N0 N1) AM =
     (let Backup = AM in
      case (case MatchAddress mvz N0 AM of
              Inl e \<Rightarrow> Inl e
            | Inr (failed0, AM1) \<Rightarrow>
                if failed0 then Inr (True, AM1) else MatchAddress mvz N1 AM1) of
        Inl e \<Rightarrow> Inl e
      | Inr (failed01, AM2) \<Rightarrow>
          if \<not> failed01 then Inr (False, AM2)
          else
            (case (case MatchAddress mvz N1 Backup of
                     Inl e \<Rightarrow> Inl e
                   | Inr (failed1, AM3) \<Rightarrow>
                       if failed1 then Inr (True, AM3) else MatchAddress mvz N0 AM3) of
               Inl e \<Rightarrow> Inl e
             | Inr (failed10, AM4) \<Rightarrow>
                 if \<not> failed10 then Inr (False, AM4)
                 else Inr (MatchAddressBase (ISD_ADD N0 N1) Backup)))"
| "MatchAddress mvz (ISD_OR N0 N1) AM =
     (case dyn_cast_ConstantSDNode N1 of
        None \<Rightarrow> Inr (MatchAddressBase (ISD_OR N0 N1) AM)
      | Some Offset \<Rightarrow>
          (let Backup = AM in
           case MatchAddress mvz N0 AM of
             Inl e \<Rightarrow> Inl e
           | Inr (failed, AM1) \<Rightarrow>
               if \<not> failed \<and> GV AM1 = None \<and> mvz N0 Offset
               then Inr (False, AM1\<lparr> Disp := Disp AM1 + ucast Offset \<rparr>)
               else Inr (MatchAddressBase (ISD_OR N0 N1) Backup)))"
| "MatchAddress mvz N AM = Inr (MatchAddressBase N AM)"

subsection \<open>SelectAddr and SelectInlineAsmMemoryOperand\<close>

datatype MVT = i1 | i8 | i16 | i32 | i64 | OtherVT nat

text \<open>
  The operand values \<^verbatim>\<open>SelectAddr\<close> hands back: a node of the DAG that was
  matched as the base (\<open>Node\<close>), or the value built by one call of the DAG builder,
  which is not part of the file. Each builder call is a constructor that records the
  arguments of the call: \<^verbatim>\<open>getRegister(Reg, VT)\<close>,
  \<^verbatim>\<open>getTargetFrameIndex(FI, VT)\<close>, \<^verbatim>\<open>getTargetGlobalAddress(GV, dl, VT, offset, flags)\<close>,
  \<^verbatim>\<open>getTargetConstantPool(C, VT, Align, Offset, flags)\<close>,
  \<^verbatim>\<open>getTargetExternalSymbol(Sym, VT, flags)\<close>, \<^verbatim>\<open>getTargetJumpTable(JTI, VT, flags)\<close>,
  \<^verbatim>\<open>getBlockAddress(BA, VT, isTarget, flags)\<close>, \<^verbatim>\<open>getTargetConstant(Val, VT)\<close>.
  An offset or value argument is \<^verbatim>\<open>AM.Disp\<close>, kept at its 16 bits.
\<close>

datatype SDValue =
    Node SDNode
  | Register nat MVT
  | TargetFrameIndex int MVT
  | TargetGlobalAddress nat MVT "16 word" nat
  | TargetConstantPool nat MVT nat "16 word" nat
  | TargetExternalSymbol string MVT nat
  | TargetJumpTable int MVT nat
  | BlockAddressValue nat MVT bool nat
  | TargetConstant "16 word" MVT

text \<open>
  The part of \<^verbatim>\<open>SelectAddr\<close> after the match (lines 734 to 759), as a function
  of the matched mode: \<open>PointerTy\<close> is \<^verbatim>\<open>TLI.getPointerTy()\<close>, \<open>VT\<close> is
  \<^verbatim>\<open>N.getValueType()\<close>. The source first stores \<^verbatim>\<open>getRegister(0, VT)\<close> in an
  empty \<^verbatim>\<open>AM.Base.Reg\<close> and then reads it back as the base.
\<close>

definition SelectAddr_Base :: "MVT \<Rightarrow> MVT \<Rightarrow> MAPIPISelAddressMode \<Rightarrow> SDValue" where
  "SelectAddr_Base PointerTy VT AM =
     (if BaseType AM = FrameIndexBase then TargetFrameIndex (Base_FrameIndex AM) PointerTy
      else case Base_Reg AM of None \<Rightarrow> Register 0 VT | Some R \<Rightarrow> Node R)"

definition SelectAddr_Disp :: "MAPIPISelAddressMode \<Rightarrow> SDValue" where
  "SelectAddr_Disp AM =
     (case GV AM of
        Some g \<Rightarrow> TargetGlobalAddress g i16 (Disp AM) 0
      | None \<Rightarrow>
     (case CP AM of
        Some c \<Rightarrow> TargetConstantPool c i16 (Align AM) (Disp AM) 0
      | None \<Rightarrow>
     (case ES AM of
        Some s \<Rightarrow> TargetExternalSymbol s i16 0
      | None \<Rightarrow>
     (if JT AM \<noteq> -1 then TargetJumpTable (JT AM) i16 0
      else
     (case BlockAddr AM of
        Some b \<Rightarrow> BlockAddressValue b i32 True 0
      | None \<Rightarrow> TargetConstant (Disp AM) i16)))))"

text \<open>\<^verbatim>\<open>SelectAddr\<close>: \<open>Inr None\<close> is the return value \<^verbatim>\<open>false\<close>,
  \<open>Inr (Some (Base, Disp))\<close> is \<^verbatim>\<open>true\<close> with the two operands. \<open>fi\<close> is the
  uninitialised \<^verbatim>\<open>Base.FrameIndex\<close> of the local \<^verbatim>\<open>AM\<close>.\<close>

definition SelectAddr :: "(SDNode \<Rightarrow> 64 word \<Rightarrow> bool) \<Rightarrow> MVT \<Rightarrow> (SDNode \<Rightarrow> MVT) \<Rightarrow> int
    \<Rightarrow> SDNode \<Rightarrow> error + (SDValue \<times> SDValue) option" where
  "SelectAddr mvz PointerTy getValueType fi N =
     (case MatchAddress mvz N (new_MAPIPISelAddressMode fi) of
        Inl e \<Rightarrow> Inl e
      | Inr (failed, AM) \<Rightarrow>
          if failed then Inr None
          else Inr (Some (SelectAddr_Base PointerTy (getValueType N) AM, SelectAddr_Disp AM)))"

text \<open>\<^verbatim>\<open>SelectInlineAsmMemoryOperand\<close> returns the flag and the vector \<^verbatim>\<open>OutOps\<close>.\<close>

definition SelectInlineAsmMemoryOperand :: "(SDNode \<Rightarrow> 64 word \<Rightarrow> bool) \<Rightarrow> MVT
    \<Rightarrow> (SDNode \<Rightarrow> MVT) \<Rightarrow> int \<Rightarrow> SDNode \<Rightarrow> char \<Rightarrow> SDValue list
    \<Rightarrow> error + (bool \<times> SDValue list)" where
  "SelectInlineAsmMemoryOperand mvz PointerTy getValueType fi Op ConstraintCode OutOps =
     (if ConstraintCode = CHR ''m'' then
        (case SelectAddr mvz PointerTy getValueType fi Op of
           Inl e \<Rightarrow> Inl e
         | Inr None \<Rightarrow> Inr (True, OutOps)
         | Inr (Some (Op0, Op1)) \<Rightarrow> Inr (False, OutOps @ [Op0, Op1]))
      else Inr (True, OutOps))"

subsection \<open>Select\<close>

text \<open>
  \<^verbatim>\<open>Select\<close> works on nodes by identity and replaces them, so here the DAG is a
  store: a list of nodes, a node's identity (the \<^verbatim>\<open>SDNode*\<close>) being its position.
  A node has its opcode, its first value type, its integer payload (the index of a
  frame-index node, the value of a constant) and the identities of its operands.
\<close>

datatype MachineOpcode = ADD16ri | OtherMachineOpcode nat

datatype Opcode =
    Opc_FrameIndex
  | Opc_TargetFrameIndex
  | Opc_TargetConstant
  | Opc_Machine MachineOpcode
  | Opc_Other nat

record DAGNode =
  NodeOpcode :: Opcode
  ValueType :: MVT
  Payload :: int
  NodeOps :: "nat list"

type_synonym SelectionDAG = "DAGNode list"

text \<open>Modelled from the spec: \<^verbatim>\<open>SDNode::isMachineOpcode\<close> is not in the file; a node
  "already expressed in target-specific form" is one whose opcode is a machine opcode.\<close>

definition isMachineOpcode :: "DAGNode \<Rightarrow> bool" where
  "isMachineOpcode nd = (case NodeOpcode nd of Opc_Machine opc \<Rightarrow> True | _ \<Rightarrow> False)"

text \<open>Modelled from the spec: \<^verbatim>\<open>SDNode::hasOneUse\<close> is not in the file; the
  consumers of a node are the operand edges of the DAG that point at it, and the node
  has one use when there is exactly one such edge.\<close>

definition use_count :: "SelectionDAG \<Rightarrow> nat \<Rightarrow> nat" where
  "use_count g n = sum_list (map (\<lambda>nd. count_list (NodeOps nd) n) g)"

definition hasOneUse :: "SelectionDAG \<Rightarrow> nat \<Rightarrow> bool" where
  "hasOneUse g n \<longleftrightarrow> use_count g n = 1"

text \<open>Modelled from the spec: the DAG builder \<^verbatim>\<open>SelectionDAG\<close> is not in the file.
  \<^verbatim>\<open>getTargetFrameIndex\<close>, \<^verbatim>\<open>getTargetConstant\<close> and \<^verbatim>\<open>getMachineNode\<close>
  allocate a new node ("a new node is allocated and the original remains valid");
  \<^verbatim>\<open>SelectNodeTo\<close> rewrites the given node in place ("the replacement reuses the
  original node's identity") and returns it.\<close>

definition getTargetFrameIndex :: "SelectionDAG \<Rightarrow> int \<Rightarrow> MVT \<Rightarrow> SelectionDAG \<times> nat" where
  "getTargetFrameIndex g FI VT =
     (g @ [\<lparr> NodeOpcode = Opc_TargetFrameIndex, ValueType = VT, Payload = FI, NodeOps = [] \<rparr>],
      length g)"

definition getTargetConstant :: "SelectionDAG \<Rightarrow> int \<Rightarrow> MVT \<Rightarrow> SelectionDAG \<times> nat" where
  "getTargetConstant g Val VT =
     (g @ [\<lparr> NodeOpcode = Opc_TargetConstant, ValueType = VT, Payload = Val, NodeOps = [] \<rparr>],
      length g)"

definition getMachineNode :: "SelectionDAG \<Rightarrow> MachineOpcode \<Rightarrow> MVT \<Rightarrow> nat \<Rightarrow> nat
    \<Rightarrow> SelectionDAG \<times> nat" where
  "getMachineNode g opc VT Op1 Op2 =
     (g @ [\<lparr> NodeOpcode = Opc_Machine opc, ValueType = VT, Payload = 0, NodeOps = [Op1, Op2] \<rparr>],
      length g)"

definition SelectNodeTo :: "SelectionDAG \<Rightarrow> nat \<Rightarrow> MachineOpcode \<Rightarrow> MVT \<Rightarrow> nat \<Rightarrow> nat
    \<Rightarrow> SelectionDAG \<times> nat" where
  "SelectNodeTo g N opc VT Op1 Op2 =
     (g[N := \<lparr> NodeOpcode = Opc_Machine opc, ValueType = VT, Payload = 0, NodeOps = [Op1, Op2] \<rparr>],
      N)"

text \<open>
  \<^verbatim>\<open>Select\<close>. \<open>SelectCode\<close> is the generated matcher of
  \<^verbatim>\<open>MAPIPGenDAGISel.inc\<close>, a parameter. The result \<open>Inr (g', None)\<close> is the return
  value \<^verbatim>\<open>NULL\<close>, \<open>Inr (g', Some R)\<close> the node \<open>R\<close>, with the DAG as the call
  left it. An \<open>N\<close> that is not in the DAG is a dangling pointer.
\<close>

definition Select :: "(SelectionDAG \<Rightarrow> nat \<Rightarrow> error + SelectionDAG \<times> nat option)
    \<Rightarrow> SelectionDAG \<Rightarrow> nat \<Rightarrow> error + SelectionDAG \<times> nat option" where
  "Select SelectCode g N =
     (if \<not> N < length g then Inl DanglingNode
      else if isMachineOpcode (g ! N) then Inr (g, None)
      else case NodeOpcode (g ! N) of
        Opc_FrameIndex \<Rightarrow>
          if ValueType (g ! N) \<noteq> i16 then Inl AssertionFailure
          else
            (let FI = Payload (g ! N);
                 (g1, TFI) = getTargetFrameIndex g FI i16
             in if hasOneUse g1 N
                then (let (g2, C0) = getTargetConstant g1 0 i16;
                          (g3, R) = SelectNodeTo g2 N ADD16ri i16 TFI C0
                      in Inr (g3, Some R))
                else (let (g2, C0) = getTargetConstant g1 0 i16;
                          (g3, R) = getMachineNode g2 ADD16ri i16 TFI C0
                      in Inr (g3, Some R)))
      | _ \<Rightarrow> SelectCode g N)"

subsection \<open>Notions used by the properties\<close>

text \<open>A base is committed: a register base that holds a node, or a frame-slot base.\<close>

definition base_committed :: "MAPIPISelAddressMode \<Rightarrow> bool" where
  "base_committed AM \<longleftrightarrow>
     BaseType AM = FrameIndexBase \<or> (BaseType AM = RegBase \<and> Base_Reg AM \<noteq> None)"

text \<open>The number of symbolic-kind fields that are set.\<close>

definition symbolic_kinds :: "MAPIPISelAddressMode \<Rightarrow> nat" where
  "symbolic_kinds AM =
     (if GV AM \<noteq> None then 1 else 0) + (if CP AM \<noteq> None then 1 else 0)
     + (if ES AM \<noteq> None then 1 else 0) + (if JT AM \<noteq> -1 then 1 else 0)
     + (if BlockAddr AM \<noteq> None then 1 else 0)"

text \<open>The symbolic kinds that \<open>hasSymbolicDisplacement\<close> tests, counted, and the modes
  with at most one of them set.\<close>

definition checked_kinds :: "MAPIPISelAddressMode \<Rightarrow> nat" where
  "checked_kinds AM =
     (if GV AM \<noteq> None then 1 else 0) + (if CP AM \<noteq> None then 1 else 0)
     + (if ES AM \<noteq> None then 1 else 0) + (if JT AM \<noteq> -1 then 1 else 0)"

definition at_most_one_checked_kind :: "MAPIPISelAddressMode \<Rightarrow> bool" where
  "at_most_one_checked_kind AM \<longleftrightarrow> checked_kinds AM \<le> 1"

text \<open>The nodes a wrapper is built over: the five classes \<^verbatim>\<open>MatchWrapper\<close> casts to.
  In a well-formed expression every wrapper wraps one of them.\<close>

fun is_symbol_node :: "SDNode \<Rightarrow> bool" where
  "is_symbol_node (GlobalAddressSDNode g off) = True"
| "is_symbol_node (ConstantPoolSDNode c al off) = True"
| "is_symbol_node (ExternalSymbolSDNode s) = True"
| "is_symbol_node (JumpTableSDNode j) = True"
| "is_symbol_node (BlockAddressSDNode b) = True"
| "is_symbol_node _ = False"

fun wrappers_ok :: "SDNode \<Rightarrow> bool" where
  "wrappers_ok (MAPIPISD_Wrapper N0) = is_symbol_node N0"
| "wrappers_ok (ISD_ADD N0 N1) = (wrappers_ok N0 \<and> wrappers_ok N1)"
| "wrappers_ok (ISD_OR N0 N1) = (wrappers_ok N0 \<and> wrappers_ok N1)"
| "wrappers_ok (OtherNode opc ops) = (\<forall>N \<in> set ops. wrappers_ok N)"
| "wrappers_ok _ = True"

text \<open>Expressions built solely from integer-constant leaves and additions, and the sum
  of their leaves as signed integers.\<close>

fun constant_tree :: "SDNode \<Rightarrow> bool" where
  "constant_tree (ISD_Constant v) = True"
| "constant_tree (ISD_ADD N0 N1) = (constant_tree N0 \<and> constant_tree N1)"
| "constant_tree _ = False"

fun leaf_sum :: "SDNode \<Rightarrow> int" where
  "leaf_sum (ISD_Constant v) = sint v"
| "leaf_sum (ISD_ADD N0 N1) = leaf_sum N0 + leaf_sum N1"
| "leaf_sum _ = 0"

text \<open>The base part of a mode.\<close>

definition base_of :: "MAPIPISelAddressMode \<Rightarrow> BaseKind \<times> SDNode option \<times> int" where
  "base_of AM = (BaseType AM, Base_Reg AM, Base_FrameIndex AM)"

text \<open>The condition \<^verbatim>\<open>!MatchAddress(X, AM) && !MatchAddress(Y, AM)\<close> of the addition
  rule as a value: fold \<open>X\<close>, then fold \<open>Y\<close> into the mode that \<open>X\<close> left; the flag
  is \<open>False\<close> when both folded.\<close>

definition fold_in_order :: "(SDNode \<Rightarrow> 64 word \<Rightarrow> bool) \<Rightarrow> SDNode \<Rightarrow> SDNode
    \<Rightarrow> MAPIPISelAddressMode \<Rightarrow> error + (bool \<times> MAPIPISelAddressMode)" where
  "fold_in_order mvz X Y AM =
     (case MatchAddress mvz X AM of
        Inl e \<Rightarrow> Inl e
      | Inr (failed, AM1) \<Rightarrow> if failed then Inr (True, AM1) else MatchAddress mvz Y AM1)"

text \<open>Two bit analyses to run the matcher with: one that knows nothing about any
  value (only the empty mask is known zero), and one for a DAG in which the low two
  bits of every value are known to be zero.\<close>

definition knows_nothing :: "SDNode \<Rightarrow> 64 word \<Rightarrow> bool" where
  "knows_nothing X C \<longleftrightarrow> C = 0"

definition low_two_bits_zero :: "SDNode \<Rightarrow> 64 word \<Rightarrow> bool" where
  "low_two_bits_zero X C \<longleftrightarrow> C \<le> 3"

text \<open>The nodes \<^verbatim>\<open>Select\<close> builds for a frame index: the machine node
  \<^verbatim>\<open>ADD16ri\<close> of type \<open>i16\<close> over two operands, the target frame index of type
  \<open>i16\<close>, the target constant 0 of type \<open>i16\<close>.\<close>

definition add16ri_zero :: "nat \<Rightarrow> nat \<Rightarrow> DAGNode" where
  "add16ri_zero TFI C0 =
     \<lparr> NodeOpcode = Opc_Machine ADD16ri, ValueType = i16, Payload = 0, NodeOps = [TFI, C0] \<rparr>"

definition frame_reference :: "int \<Rightarrow> DAGNode" where
  "frame_reference FI =
     \<lparr> NodeOpcode = Opc_TargetFrameIndex, ValueType = i16, Payload = FI, NodeOps = [] \<rparr>"

definition zero_constant :: DAGNode where
  "zero_constant =
     \<lparr> NodeOpcode = Opc_TargetConstant, ValueType = i16, Payload = 0, NodeOps = [] \<rparr>"

text \<open>Nodes and a generated matcher for running \<^verbatim>\<open>Select\<close>: a frame-index node
  of type \<open>i16\<close>, a node of some other opcode that uses the given nodes, and a
  matcher that selects nothing.\<close>

definition no_SelectCode :: "SelectionDAG \<Rightarrow> nat \<Rightarrow> error + SelectionDAG \<times> nat option" where
  "no_SelectCode g N = Inr (g, None)"

definition frame_index_node :: "int \<Rightarrow> DAGNode" where
  "frame_index_node FI = \<lparr> NodeOpcode = Opc_FrameIndex, ValueType = i16, Payload = FI, NodeOps = [] \<rparr>"

definition user_node :: "nat list \<Rightarrow> DAGNode" where
  "user_node ops = \<lparr> NodeOpcode = Opc_Other 0, ValueType = i16, Payload = 0, NodeOps = ops \<rparr>"

text \<open>A DAG in which every node has the value type \<open>i16\<close>.\<close>

definition all_i16 :: "SDNode \<Rightarrow> MVT" where
  "all_i16 N = i16"

section \<open>Properties\<close>

subsection \<open>Auxiliary facts\<close>

lemma ucast_sint64: "(ucast (v :: 64 word) :: 16 word) = word_of_int (sint v)"
  by (rule bit_word_eqI) (auto simp add: bit_simps)

lemma sint_word_of_int16: "sint (word_of_int k :: 16 word) = signed_take_bit 15 k"
  by (simp add: sint_sbintrunc')

lemma MatchAddressBase_cases:
  "MatchAddressBase N AM =
     (if base_committed AM then (True, AM)
      else (False, AM\<lparr> BaseType := RegBase, Base_Reg := Some N \<rparr>))"
  by (cases "BaseType AM") (auto simp: MatchAddressBase_def base_committed_def)

lemma MatchWrapper_ok:
  "is_symbol_node N0 \<Longrightarrow> \<exists>r AM'. MatchWrapper (MAPIPISD_Wrapper N0) AM = Inr (r, AM')"
  by (cases N0) (auto simp add: MatchWrapper_def getOperand_def)

lemma MatchWrapper_base_of: "MatchWrapper N AM = Inr (r, AM') \<Longrightarrow> base_of AM' = base_of AM"
  by (auto simp: MatchWrapper_def base_of_def split: if_splits sum.splits SDNode.splits)

lemma base_of_committed: "base_of A = base_of B \<Longrightarrow> base_committed A = base_committed B"
  by (simp add: base_of_def base_committed_def)

lemma MatchWrapper_committed:
  "MatchWrapper N AM = Inr (r, AM') \<Longrightarrow> base_committed AM' = base_committed AM"
  by (rule base_of_committed) (rule MatchWrapper_base_of)

lemma base_of_Disp [simp]: "base_of (AM\<lparr> Disp := d \<rparr>) = base_of AM"
  by (simp add: base_of_def)

text \<open>On a well-formed expression the matcher returns.\<close>

lemma no_abort: "wrappers_ok N \<Longrightarrow> \<exists>r AM'. MatchAddress mvz N AM = Inr (r, AM')"
proof (induction N arbitrary: AM)
  case (MAPIPISD_Wrapper N0)
  then obtain r A1 where "MatchWrapper (MAPIPISD_Wrapper N0) AM = Inr (r, A1)"
    using MatchWrapper_ok[of N0 AM] by auto
  then show ?case by (auto simp add: MatchAddressBase_cases)
next
  case (ISD_ADD N0 N1)
  then have a: "\<And>AM. \<exists>r AM'. MatchAddress mvz N0 AM = Inr (r, AM')"
    and b: "\<And>AM. \<exists>r AM'. MatchAddress mvz N1 AM = Inr (r, AM')" by auto
  obtain r0 A1 where 1: "MatchAddress mvz N0 AM = Inr (r0, A1)" using a by blast
  obtain r1 A2 where 2: "MatchAddress mvz N1 A1 = Inr (r1, A2)" using b by blast
  obtain r2 A3 where 3: "MatchAddress mvz N1 AM = Inr (r2, A3)" using b by blast
  obtain r3 A4 where 4: "MatchAddress mvz N0 A3 = Inr (r3, A4)" using a by blast
  show ?case
    by (simp add: 1 2 3 4 Let_def MatchAddressBase_cases) blast
next
  case (ISD_OR N0 N1)
  then have a: "\<And>AM. \<exists>r AM'. MatchAddress mvz N0 AM = Inr (r, AM')" by auto
  obtain r0 A1 where 1: "MatchAddress mvz N0 AM = Inr (r0, A1)" using a by blast
  show ?case
    by (cases "dyn_cast_ConstantSDNode N1") (auto simp add: 1 Let_def MatchAddressBase_cases)
qed (auto simp add: MatchAddressBase_cases)

text \<open>With no base committed the matcher never reports failure.\<close>

lemma never_fails:
  "\<not> base_committed AM \<Longrightarrow> MatchAddress mvz N AM \<noteq> Inr (True, AM')"
proof (induction N arbitrary: AM AM')
  case (MAPIPISD_Wrapper N0)
  show ?case
  proof (cases "MatchWrapper (MAPIPISD_Wrapper N0) AM")
    case (Inl e)
    then show ?thesis by simp
  next
    case (Inr p)
    obtain r A1 where p: "p = (r, A1)" by (cases p)
    have "\<not> base_committed A1"
      using MatchWrapper_committed[of "MAPIPISD_Wrapper N0" AM r A1] Inr p MAPIPISD_Wrapper by simp
    then show ?thesis using Inr p by (simp add: MatchAddressBase_cases)
  qed
next
  case (ISD_ADD N0 N1)
  have a: "\<And>A. MatchAddress mvz N0 AM \<noteq> Inr (True, A)" using ISD_ADD by blast
  have b: "\<And>A. MatchAddress mvz N1 AM \<noteq> Inr (True, A)" using ISD_ADD by blast
  have bc: "MatchAddressBase (ISD_ADD N0 N1) AM =
      (False, AM\<lparr> BaseType := RegBase, Base_Reg := Some (ISD_ADD N0 N1) \<rparr>)"
    using ISD_ADD.prems by (simp add: MatchAddressBase_cases)
  show ?case
    using a b by (auto simp add: Let_def bc split: sum.splits prod.splits if_splits)
next
  case (ISD_OR N0 N1)
  have bc: "MatchAddressBase (ISD_OR N0 N1) AM =
      (False, AM\<lparr> BaseType := RegBase, Base_Reg := Some (ISD_OR N0 N1) \<rparr>)"
    using ISD_OR.prems by (simp add: MatchAddressBase_cases)
  show ?case
    by (auto simp add: Let_def bc split: sum.splits prod.splits if_splits option.splits)
qed (auto simp add: MatchAddressBase_cases base_committed_def)

text \<open>With a base committed no fold changes the base.\<close>

lemma base_preserved:
  "base_committed AM \<Longrightarrow> MatchAddress mvz N AM = Inr (r, AM') \<Longrightarrow> base_of AM' = base_of AM"
proof (induction N arbitrary: AM AM' r)
  case (MAPIPISD_Wrapper N0)
  then show ?case
    by (auto simp: MatchAddressBase_cases split: sum.splits prod.splits if_splits
        dest: MatchWrapper_base_of MatchWrapper_committed)
next
  case (ISD_ADD N0 N1)
  note IH0 = ISD_ADD.IH(1) and IH1 = ISD_ADD.IH(2)
  have c: "base_committed AM" by fact
  have step0: "\<And>A r B. base_of A = base_of AM \<Longrightarrow> MatchAddress mvz N0 A = Inr (r, B)
      \<Longrightarrow> base_of B = base_of AM"
    using IH0 c base_of_committed by metis
  have step1: "\<And>A r B. base_of A = base_of AM \<Longrightarrow> MatchAddress mvz N1 A = Inr (r, B)
      \<Longrightarrow> base_of B = base_of AM"
    using IH1 c base_of_committed by metis
  from ISD_ADD.prems(2) show ?case
    by (auto simp: Let_def MatchAddressBase_cases c split: sum.splits prod.splits if_splits)
       (metis step0 step1)+
next
  case (ISD_OR N0 N1)
  note IH0 = ISD_OR.IH(1)
  have c: "base_committed AM" by fact
  from ISD_OR.prems(2) show ?case
    by (auto simp: Let_def MatchAddressBase_cases c
        split: sum.splits prod.splits if_splits option.splits dest: IH0[OF c])
qed (auto simp add: MatchAddressBase_cases base_committed_def split: if_splits)

text \<open>A tree of constants and additions adds the sum of its leaves to the displacement
  and changes nothing else.\<close>

lemma constant_tree_fold:
  "constant_tree N \<Longrightarrow>
     MatchAddress mvz N AM = Inr (False, AM\<lparr> Disp := Disp AM + word_of_int (leaf_sum N) \<rparr>)"
proof (induction N arbitrary: AM)
  case (ISD_Constant v)
  show ?case by (simp add: ucast_sint64)
next
  case (ISD_ADD N0 N1)
  then show ?case by (simp add: Let_def add.assoc)
qed simp_all

text \<open>A failed match leaves the mode as it was.\<close>

lemma MatchWrapper_failed: "MatchWrapper N AM = Inr (True, AM') \<Longrightarrow> AM' = AM"
  by (auto simp: MatchWrapper_def split: if_splits sum.splits SDNode.splits)

lemma MatchAddressBase_failed: "MatchAddressBase N AM = (True, AM') \<Longrightarrow> AM' = AM"
  by (auto simp: MatchAddressBase_def split: if_splits)

lemma failure_rolls_back: "MatchAddress mvz N AM = Inr (True, AM') \<Longrightarrow> AM' = AM"
proof (cases N)
  case (MAPIPISD_Wrapper N0)
  assume "MatchAddress mvz N AM = Inr (True, AM')"
  then show ?thesis unfolding MAPIPISD_Wrapper
    by (auto split: sum.splits prod.splits if_splits
        dest: MatchWrapper_failed MatchAddressBase_failed)
next
  case (ISD_ADD N0 N1)
  assume "MatchAddress mvz N AM = Inr (True, AM')"
  then show ?thesis unfolding ISD_ADD
    by (auto simp: Let_def split: sum.splits prod.splits if_splits dest: MatchAddressBase_failed)
next
  case (ISD_OR N0 N1)
  assume "MatchAddress mvz N AM = Inr (True, AM')"
  then show ?thesis unfolding ISD_OR
    by (auto simp: Let_def split: sum.splits prod.splits if_splits option.splits
        dest: MatchAddressBase_failed)
qed (auto dest: MatchAddressBase_failed split: if_splits)

text \<open>The register base after a fold is the one before it or a node of the expression.\<close>

lemma base_reg_origin:
  "MatchAddress mvz N AM = Inr (r, AM') \<Longrightarrow>
     Base_Reg AM' = Base_Reg AM \<or> (\<exists>M. Base_Reg AM' = Some M \<and> size M \<le> size N)"
proof (induction N arbitrary: AM AM' r)
  case (MAPIPISD_Wrapper N0)
  then show ?case
    by (auto simp: MatchAddressBase_def base_of_def split: sum.splits prod.splits if_splits
        dest!: MatchWrapper_base_of)
next
  case (ISD_ADD N0 N1)
  note IH0 = ISD_ADD.IH(1) and IH1 = ISD_ADD.IH(2)
  have two: "\<And>X Y A r1 B r2 C. 
      (\<And>AM AM' r. MatchAddress mvz X AM = Inr (r, AM') \<Longrightarrow>
         Base_Reg AM' = Base_Reg AM \<or> (\<exists>M. Base_Reg AM' = Some M \<and> size M \<le> size X)) \<Longrightarrow>
      (\<And>AM AM' r. MatchAddress mvz Y AM = Inr (r, AM') \<Longrightarrow>
         Base_Reg AM' = Base_Reg AM \<or> (\<exists>M. Base_Reg AM' = Some M \<and> size M \<le> size Y)) \<Longrightarrow>
      MatchAddress mvz X AM = Inr (r1, B) \<Longrightarrow> MatchAddress mvz Y B = Inr (r2, C) \<Longrightarrow>
      Base_Reg C = Base_Reg AM \<or>
        (\<exists>M. Base_Reg C = Some M \<and> size M \<le> size X + size Y)"
    by (metis trans_le_add1 trans_le_add2)
  from ISD_ADD.prems show ?case
    apply (auto simp: Let_def MatchAddressBase_def split: sum.splits prod.splits if_splits)
    using two[OF IH0 IH1] two[OF IH1 IH0] apply (fastforce simp: add.commute)+
    done
next
  case (ISD_OR N0 N1)
  note IH0 = ISD_OR.IH(1)
  from ISD_OR.prems show ?case
    by (auto simp: Let_def MatchAddressBase_def
        split: sum.splits prod.splits if_splits option.splits dest!: IH0)
qed (auto simp add: MatchAddressBase_def split: if_splits)

subsection \<open>C5: expressions of constants and additions\<close>

text \<open>
  C5. For every address expression built solely from integer-constant leaves and
  addition nodes, matching it into a fresh AddressMode succeeds and yields a
  displacement equal to the sum of all constant leaves truncated to the 16-bit signed
  immediate width, with the base left empty (no register or frame slot consumed) and
  no symbolic reference set. The sum is taken over the integers; the displacement is
  its low 16 bits, read as a signed value by \<open>sint\<close>.
\<close>

theorem constants_and_additions_displacement:
  "constant_tree N \<Longrightarrow>
     MatchAddress mvz N (new_MAPIPISelAddressMode fi) =
       Inr (False, \<lparr> BaseType = RegBase, Base_Reg = None, Base_FrameIndex = fi,
                     Disp = word_of_int (leaf_sum N),
                     GV = None, CP = None, BlockAddr = None, ES = None, JT = -1, Align = 0 \<rparr>)
     \<and> sint (word_of_int (leaf_sum N) :: 16 word) = signed_take_bit 15 (leaf_sum N)"
  by (simp add: constant_tree_fold sint_word_of_int16) (simp add: new_MAPIPISelAddressMode_def)

text \<open>The sum 32767 + (1 + 5) = 32773 does not fit: the displacement wraps to -32763.\<close>

theorem constants_and_additions_displacement_witness:
  "constant_tree (ISD_ADD (ISD_Constant 32767) (ISD_ADD (ISD_Constant 1) (ISD_Constant 5)))
   \<and> leaf_sum (ISD_ADD (ISD_Constant 32767) (ISD_ADD (ISD_Constant 1) (ISD_Constant 5))) = 32773
   \<and> MatchAddress knows_nothing
        (ISD_ADD (ISD_Constant 32767) (ISD_ADD (ISD_Constant 1) (ISD_Constant 5)))
        (new_MAPIPISelAddressMode 0) =
       Inr (False, \<lparr> BaseType = RegBase, Base_Reg = None, Base_FrameIndex = 0,
                     Disp = - 32763,
                     GV = None, CP = None, BlockAddr = None, ES = None, JT = -1, Align = 0 \<rparr>)
   \<and> sint (- 32763 :: 16 word) = - 32763"
  using constants_and_additions_displacement
    [of "ISD_ADD (ISD_Constant 32767) (ISD_ADD (ISD_Constant 1) (ISD_Constant 5))" knows_nothing 0]
  by simp

subsection \<open>C2: OR with a constant as an addition\<close>

text \<open>
  C2 as stated: for every OR node whose right operand is an integer constant \<open>C\<close>,
  MatchAddress folds the OR as an addition (left operand folded, then \<open>C\<close> added
  into the displacement) if and only if the bit-disjointness query holds for the left
  operand and \<open>C\<close>; when the query is false, the OR node itself becomes the base and
  the displacement and symbolic fields are as before the attempt.

  This fails in three ways. First input: the left operand is a wrapped global symbol
  and the query holds for the constant 3; folding the left operand sets \<open>GV\<close>, the
  guard \<^verbatim>\<open>AM.GV == NULL\<close> rejects the fold, and the OR node becomes the base
  instead of the global with displacement 3. Second input: the query is false, but the
  mode already has the frame-slot base 5 (as left by folding \<open>ISD_FrameIndex 5\<close>), so
  the base rule fails and the OR node does not become the base. Third input: the query
  holds, but in the mode with the frame-slot base 5 the opaque left operand cannot be
  folded, so the OR is not folded either and the match fails.
\<close>

theorem or_fold_counterexample:
  "low_two_bits_zero (MAPIPISD_Wrapper (GlobalAddressSDNode 1 0)) 3
   \<and> MatchAddress low_two_bits_zero (MAPIPISD_Wrapper (GlobalAddressSDNode 1 0))
         (new_MAPIPISelAddressMode 0)
       = Inr (False, (new_MAPIPISelAddressMode 0)\<lparr> GV := Some 1 \<rparr>)
   \<and> MatchAddress low_two_bits_zero
         (ISD_OR (MAPIPISD_Wrapper (GlobalAddressSDNode 1 0)) (ISD_Constant 3))
         (new_MAPIPISelAddressMode 0)
       = Inr (False, (new_MAPIPISelAddressMode 0)
               \<lparr> Base_Reg := Some (ISD_OR (MAPIPISD_Wrapper (GlobalAddressSDNode 1 0)) (ISD_Constant 3)) \<rparr>)
   \<and> MatchAddress low_two_bits_zero
         (ISD_OR (MAPIPISD_Wrapper (GlobalAddressSDNode 1 0)) (ISD_Constant 3))
         (new_MAPIPISelAddressMode 0)
       \<noteq> Inr (False, (new_MAPIPISelAddressMode 0)\<lparr> GV := Some 1, Disp := 3 \<rparr>)
   \<and> MatchAddress knows_nothing (ISD_FrameIndex 5) (new_MAPIPISelAddressMode 0)
       = Inr (False, (new_MAPIPISelAddressMode 0)\<lparr> BaseType := FrameIndexBase, Base_FrameIndex := 5 \<rparr>)
   \<and> \<not> knows_nothing (OtherNode 0 []) 1
   \<and> MatchAddress knows_nothing (ISD_OR (OtherNode 0 []) (ISD_Constant 1))
         ((new_MAPIPISelAddressMode 0)\<lparr> BaseType := FrameIndexBase, Base_FrameIndex := 5 \<rparr>)
       = Inr (True, (new_MAPIPISelAddressMode 0)\<lparr> BaseType := FrameIndexBase, Base_FrameIndex := 5 \<rparr>)
   \<and> low_two_bits_zero (OtherNode 0 []) 3
   \<and> MatchAddress low_two_bits_zero (OtherNode 0 [])
         ((new_MAPIPISelAddressMode 0)\<lparr> BaseType := FrameIndexBase, Base_FrameIndex := 5 \<rparr>)
       = Inr (True, (new_MAPIPISelAddressMode 0)\<lparr> BaseType := FrameIndexBase, Base_FrameIndex := 5 \<rparr>)
   \<and> MatchAddress low_two_bits_zero (ISD_OR (OtherNode 0 []) (ISD_Constant 3))
         ((new_MAPIPISelAddressMode 0)\<lparr> BaseType := FrameIndexBase, Base_FrameIndex := 5 \<rparr>)
       = Inr (True, (new_MAPIPISelAddressMode 0)\<lparr> BaseType := FrameIndexBase, Base_FrameIndex := 5 \<rparr>)"
  by (simp add: low_two_bits_zero_def knows_nothing_def new_MAPIPISelAddressMode_def
      MatchWrapper_def getOperand_def hasSymbolicDisplacement_def MatchAddressBase_def)

text \<open>
  C2 as amended: for every OR node whose right operand is an integer constant \<open>C\<close>
  and whose left operand the matcher returns from, MatchAddress folds the OR as an
  addition (the mode left by folding the left operand, with \<open>C\<close> added into the
  displacement) if and only if folding the left operand succeeds, leaves no global
  symbol in the mode, and the bit-disjointness query holds. Otherwise the mode is
  restored to the snapshot and the generic base rule is applied to the OR node: with no
  base committed the OR node becomes the register base and every other field,
  displacement and symbolic fields included, is as before the attempt; with a base
  committed the match fails and the mode is unchanged. In both of these cases the
  result differs from the folded one.
\<close>

theorem or_fold_rule:
  assumes "dyn_cast_ConstantSDNode N1 = Some C"
    and "MatchAddress mvz N0 AM = Inr (failed, AM1)"
  shows "if \<not> failed \<and> GV AM1 = None \<and> mvz N0 C
         then MatchAddress mvz (ISD_OR N0 N1) AM = Inr (False, AM1\<lparr> Disp := Disp AM1 + ucast C \<rparr>)
         else MatchAddress mvz (ISD_OR N0 N1) AM =
                (if base_committed AM then Inr (True, AM)
                 else Inr (False, AM\<lparr> BaseType := RegBase, Base_Reg := Some (ISD_OR N0 N1) \<rparr>))
              \<and> MatchAddress mvz (ISD_OR N0 N1) AM
                  \<noteq> Inr (False, AM1\<lparr> Disp := Disp AM1 + ucast C \<rparr>)"
proof (cases "\<not> failed \<and> GV AM1 = None \<and> mvz N0 C")
  case True
  then show ?thesis using assms by (simp add: Let_def)
next
  case False
  have res: "MatchAddress mvz (ISD_OR N0 N1) AM =
      (if base_committed AM then Inr (True, AM)
       else Inr (False, AM\<lparr> BaseType := RegBase, Base_Reg := Some (ISD_OR N0 N1) \<rparr>))"
    using False assms by (auto simp add: Let_def MatchAddressBase_cases)
  have "Base_Reg AM1 \<noteq> Some (ISD_OR N0 N1)" if "\<not> base_committed AM"
  proof -
    from that have "Base_Reg AM = None" by (cases "BaseType AM") (auto simp: base_committed_def)
    then show ?thesis using base_reg_origin[OF assms(2)] by auto
  qed
  then have "MatchAddress mvz (ISD_OR N0 N1) AM \<noteq> Inr (False, AM1\<lparr> Disp := Disp AM1 + ucast C \<rparr>)"
    unfolding res by (cases "base_committed AM") (auto dest: arg_cong[where f = Base_Reg])
  then show ?thesis using False res by simp
qed

text \<open>Both branches at concrete inputs: an opaque left operand with the query true
  folds; the wrapped global with the query true does not.\<close>

theorem or_fold_rule_witness:
  "dyn_cast_ConstantSDNode (ISD_Constant 3) = Some 3
   \<and> MatchAddress low_two_bits_zero (OtherNode 7 []) (new_MAPIPISelAddressMode 0)
       = Inr (False, (new_MAPIPISelAddressMode 0)\<lparr> Base_Reg := Some (OtherNode 7 []) \<rparr>)
   \<and> low_two_bits_zero (OtherNode 7 []) 3
   \<and> MatchAddress low_two_bits_zero (ISD_OR (OtherNode 7 []) (ISD_Constant 3)) (new_MAPIPISelAddressMode 0)
       = Inr (False, (new_MAPIPISelAddressMode 0)\<lparr> Base_Reg := Some (OtherNode 7 []), Disp := 3 \<rparr>)
   \<and> MatchAddress low_two_bits_zero (MAPIPISD_Wrapper (GlobalAddressSDNode 1 0))
         (new_MAPIPISelAddressMode 0)
       = Inr (False, (new_MAPIPISelAddressMode 0)\<lparr> GV := Some 1 \<rparr>)
   \<and> MatchAddress low_two_bits_zero
         (ISD_OR (MAPIPISD_Wrapper (GlobalAddressSDNode 1 0)) (ISD_Constant 3))
         (new_MAPIPISelAddressMode 0)
       = Inr (False, (new_MAPIPISelAddressMode 0)
               \<lparr> Base_Reg := Some (ISD_OR (MAPIPISD_Wrapper (GlobalAddressSDNode 1 0)) (ISD_Constant 3)) \<rparr>)"
proof -
  have l1: "MatchAddress low_two_bits_zero (OtherNode 7 []) (new_MAPIPISelAddressMode 0)
       = Inr (False, (new_MAPIPISelAddressMode 0)\<lparr> Base_Reg := Some (OtherNode 7 []) \<rparr>)"
    by (simp add: new_MAPIPISelAddressMode_def MatchAddressBase_def)
  have l2: "MatchAddress low_two_bits_zero (MAPIPISD_Wrapper (GlobalAddressSDNode 1 0))
         (new_MAPIPISelAddressMode 0)
       = Inr (False, (new_MAPIPISelAddressMode 0)\<lparr> GV := Some 1 \<rparr>)"
    by (simp add: new_MAPIPISelAddressMode_def MatchWrapper_def getOperand_def hasSymbolicDisplacement_def)
  have c: "dyn_cast_ConstantSDNode (ISD_Constant 3) = Some 3" by simp
  have nc: "\<not> base_committed (new_MAPIPISelAddressMode 0)"
    by (simp add: base_committed_def new_MAPIPISelAddressMode_def)
  show ?thesis
    using or_fold_rule[OF c l1] or_fold_rule[OF c l2] l1 l2 nc
    by (simp add: low_two_bits_zero_def new_MAPIPISelAddressMode_def)
qed

subsection \<open>C3: the addition rule\<close>

text \<open>The addition rule in terms of \<open>fold_in_order\<close>; both attempts start from the
  mode the rule was entered with, which is the snapshot \<^verbatim>\<open>Backup\<close>.\<close>

lemma MatchAddress_ADD_fold_in_order:
  "MatchAddress mvz (ISD_ADD N0 N1) AM =
     (case fold_in_order mvz N0 N1 AM of
        Inl e \<Rightarrow> Inl e
      | Inr (failed01, AM2) \<Rightarrow>
          if \<not> failed01 then Inr (False, AM2)
          else (case fold_in_order mvz N1 N0 AM of
                  Inl e \<Rightarrow> Inl e
                | Inr (failed10, AM4) \<Rightarrow>
                    if \<not> failed10 then Inr (False, AM4)
                    else Inr (MatchAddressBase (ISD_ADD N0 N1) AM)))"
  unfolding fold_in_order_def by (simp add: Let_def)

text \<open>
  C3. For every addition node, MatchAddress first snapshots the AddressMode and tries to
  fold operand 0 then operand 1 (the second into the mode the first left); if that order
  does not fully succeed it restores the snapshot and tries operand 1 then operand 0; if
  both orders fail, the AddressMode is restored to the snapshot and the whole addition
  node is committed as the base via the generic base rule: the result is that of
  \<open>MatchAddressBase\<close> on the addition node and the snapshot, which commits the node as
  the register base when no base is committed.
\<close>

theorem addition_tries_both_orders:
  "(fold_in_order mvz X Y AM = Inr (False, A) \<longleftrightarrow>
      (\<exists>A1. MatchAddress mvz X AM = Inr (False, A1) \<and> MatchAddress mvz Y A1 = Inr (False, A)))
   \<and> (fold_in_order mvz X Y AM = Inr (True, B) \<longleftrightarrow>
      MatchAddress mvz X AM = Inr (True, B)
      \<or> (\<exists>A1. MatchAddress mvz X AM = Inr (False, A1) \<and> MatchAddress mvz Y A1 = Inr (True, B)))
   \<and> (fold_in_order mvz N0 N1 AM = Inr (False, A01) \<longrightarrow>
        MatchAddress mvz (ISD_ADD N0 N1) AM = Inr (False, A01))
   \<and> (fold_in_order mvz N0 N1 AM = Inr (True, B01) \<and> fold_in_order mvz N1 N0 AM = Inr (False, A10) \<longrightarrow>
        MatchAddress mvz (ISD_ADD N0 N1) AM = Inr (False, A10))
   \<and> (fold_in_order mvz N0 N1 AM = Inr (True, B01) \<and> fold_in_order mvz N1 N0 AM = Inr (True, B10) \<longrightarrow>
        MatchAddress mvz (ISD_ADD N0 N1) AM = Inr (MatchAddressBase (ISD_ADD N0 N1) AM)
        \<and> (BaseType AM = RegBase \<and> Base_Reg AM = None \<longrightarrow>
             MatchAddress mvz (ISD_ADD N0 N1) AM =
               Inr (False, AM\<lparr> BaseType := RegBase, Base_Reg := Some (ISD_ADD N0 N1) \<rparr>)))"
proof -
  have 1: "fold_in_order mvz X Y AM = Inr (False, A) \<longleftrightarrow>
      (\<exists>A1. MatchAddress mvz X AM = Inr (False, A1) \<and> MatchAddress mvz Y A1 = Inr (False, A))"
    by (auto simp: fold_in_order_def split: sum.splits prod.splits if_splits)
  have fl: "fold_in_order mvz X Y AM = Inr (True, B) \<longleftrightarrow>
      MatchAddress mvz X AM = Inr (True, B)
      \<or> (\<exists>A1. MatchAddress mvz X AM = Inr (False, A1) \<and> MatchAddress mvz Y A1 = Inr (True, B))"
    by (auto simp: fold_in_order_def split: sum.splits prod.splits if_splits)
  have 2: "fold_in_order mvz N0 N1 AM = Inr (False, A01) \<longrightarrow>
        MatchAddress mvz (ISD_ADD N0 N1) AM = Inr (False, A01)"
    by (simp add: MatchAddress_ADD_fold_in_order del: MatchAddress.simps)
  have 3: "fold_in_order mvz N0 N1 AM = Inr (True, B01) \<and> fold_in_order mvz N1 N0 AM = Inr (False, A10) \<longrightarrow>
        MatchAddress mvz (ISD_ADD N0 N1) AM = Inr (False, A10)"
    by (simp add: MatchAddress_ADD_fold_in_order del: MatchAddress.simps)
  have 4: "fold_in_order mvz N0 N1 AM = Inr (True, B01) \<and> fold_in_order mvz N1 N0 AM = Inr (True, B10) \<longrightarrow>
        MatchAddress mvz (ISD_ADD N0 N1) AM = Inr (MatchAddressBase (ISD_ADD N0 N1) AM)
        \<and> (BaseType AM = RegBase \<and> Base_Reg AM = None \<longrightarrow>
             MatchAddress mvz (ISD_ADD N0 N1) AM =
               Inr (False, AM\<lparr> BaseType := RegBase, Base_Reg := Some (ISD_ADD N0 N1) \<rparr>))"
    by (simp add: MatchAddress_ADD_fold_in_order MatchAddressBase_def del: MatchAddress.simps)
  show ?thesis using 1 fl 2 3 4 by blast
qed


text \<open>The three outcomes: a frame slot plus a constant folds in the first order; two
  opaque operands fail in both orders and the addition becomes the base; with a base
  already committed both orders fail and so does the base rule.\<close>

theorem addition_tries_both_orders_witness:
  "fold_in_order knows_nothing (ISD_FrameIndex 5) (ISD_Constant 8) (new_MAPIPISelAddressMode 0)
     = Inr (False, (new_MAPIPISelAddressMode 0)
             \<lparr> BaseType := FrameIndexBase, Base_FrameIndex := 5, Disp := 8 \<rparr>)
   \<and> MatchAddress knows_nothing (ISD_ADD (ISD_FrameIndex 5) (ISD_Constant 8)) (new_MAPIPISelAddressMode 0)
     = Inr (False, (new_MAPIPISelAddressMode 0)
             \<lparr> BaseType := FrameIndexBase, Base_FrameIndex := 5, Disp := 8 \<rparr>)
   \<and> fold_in_order knows_nothing (OtherNode 1 []) (ISD_ADD (OtherNode 2 []) (ISD_Constant 4))
        (new_MAPIPISelAddressMode 0)
     = Inr (True, (new_MAPIPISelAddressMode 0)\<lparr> Base_Reg := Some (OtherNode 1 []) \<rparr>)
   \<and> fold_in_order knows_nothing (ISD_ADD (OtherNode 2 []) (ISD_Constant 4)) (OtherNode 1 [])
        (new_MAPIPISelAddressMode 0)
     = Inr (True, (new_MAPIPISelAddressMode 0)\<lparr> Base_Reg := Some (OtherNode 2 []), Disp := 4 \<rparr>)
   \<and> MatchAddress knows_nothing
        (ISD_ADD (OtherNode 1 []) (ISD_ADD (OtherNode 2 []) (ISD_Constant 4)))
        (new_MAPIPISelAddressMode 0)
     = Inr (False, (new_MAPIPISelAddressMode 0)
             \<lparr> Base_Reg := Some (ISD_ADD (OtherNode 1 []) (ISD_ADD (OtherNode 2 []) (ISD_Constant 4))) \<rparr>)
   \<and> fold_in_order knows_nothing (ISD_FrameIndex 5) (ISD_Constant 8)
        ((new_MAPIPISelAddressMode 0)\<lparr> Base_Reg := Some (OtherNode 1 []) \<rparr>)
     = Inr (True, (new_MAPIPISelAddressMode 0)\<lparr> Base_Reg := Some (OtherNode 1 []) \<rparr>)
   \<and> fold_in_order knows_nothing (ISD_Constant 8) (ISD_FrameIndex 5)
        ((new_MAPIPISelAddressMode 0)\<lparr> Base_Reg := Some (OtherNode 1 []) \<rparr>)
     = Inr (True, (new_MAPIPISelAddressMode 0)\<lparr> Base_Reg := Some (OtherNode 1 []), Disp := 8 \<rparr>)
   \<and> MatchAddress knows_nothing (ISD_ADD (ISD_FrameIndex 5) (ISD_Constant 8))
        ((new_MAPIPISelAddressMode 0)\<lparr> Base_Reg := Some (OtherNode 1 []) \<rparr>)
     = Inr (True, (new_MAPIPISelAddressMode 0)\<lparr> Base_Reg := Some (OtherNode 1 []) \<rparr>)"
proof -
  let ?A = "new_MAPIPISelAddressMode 0"
  let ?B = "(new_MAPIPISelAddressMode 0)\<lparr> Base_Reg := Some (OtherNode 1 []) \<rparr>"
  let ?Y = "ISD_ADD (OtherNode 2 []) (ISD_Constant 4)"
  have f1: "fold_in_order knows_nothing (ISD_FrameIndex 5) (ISD_Constant 8) ?A
     = Inr (False, ?A\<lparr> BaseType := FrameIndexBase, Base_FrameIndex := 5, Disp := 8 \<rparr>)"
    by (simp add: fold_in_order_def new_MAPIPISelAddressMode_def)
  have f2: "fold_in_order knows_nothing (OtherNode 1 []) ?Y ?A = Inr (True, ?B)"
    by (simp add: fold_in_order_def new_MAPIPISelAddressMode_def MatchAddressBase_def)
  have f3: "fold_in_order knows_nothing ?Y (OtherNode 1 []) ?A
      = Inr (True, ?A\<lparr> Base_Reg := Some (OtherNode 2 []), Disp := 4 \<rparr>)"
    by (simp add: fold_in_order_def new_MAPIPISelAddressMode_def MatchAddressBase_def)
  have f4: "fold_in_order knows_nothing (ISD_FrameIndex 5) (ISD_Constant 8) ?B = Inr (True, ?B)"
    by (simp add: fold_in_order_def new_MAPIPISelAddressMode_def MatchAddressBase_def)
  have f5: "fold_in_order knows_nothing (ISD_Constant 8) (ISD_FrameIndex 5) ?B
      = Inr (True, ?B\<lparr> Disp := 8 \<rparr>)"
    by (simp add: fold_in_order_def new_MAPIPISelAddressMode_def MatchAddressBase_def)
  have e: "BaseType ?A = RegBase \<and> Base_Reg ?A = None"
    by (simp add: new_MAPIPISelAddressMode_def)
  note t1 = addition_tries_both_orders[where mvz = knows_nothing and AM = ?A
      and ?N0.0 = "ISD_FrameIndex 5" and ?N1.0 = "ISD_Constant 8"
      and ?A01.0 = "?A\<lparr> BaseType := FrameIndexBase, Base_FrameIndex := 5, Disp := 8 \<rparr>"]
  note t2 = addition_tries_both_orders[where mvz = knows_nothing and AM = ?A
      and ?N0.0 = "OtherNode 1 []" and ?N1.0 = ?Y and ?B01.0 = ?B
      and ?B10.0 = "?A\<lparr> Base_Reg := Some (OtherNode 2 []), Disp := 4 \<rparr>"]
  note t3 = addition_tries_both_orders[where mvz = knows_nothing and AM = ?B
      and ?N0.0 = "ISD_FrameIndex 5" and ?N1.0 = "ISD_Constant 8" and ?B01.0 = ?B
      and ?B10.0 = "?B\<lparr> Disp := 8 \<rparr>"]
  have r1: "MatchAddress knows_nothing (ISD_ADD (ISD_FrameIndex 5) (ISD_Constant 8)) ?A
     = Inr (False, ?A\<lparr> BaseType := FrameIndexBase, Base_FrameIndex := 5, Disp := 8 \<rparr>)"
    using t1 f1 by blast
  have r2: "MatchAddress knows_nothing (ISD_ADD (OtherNode 1 []) ?Y) ?A
     = Inr (False, ?A\<lparr> BaseType := RegBase, Base_Reg := Some (ISD_ADD (OtherNode 1 []) ?Y) \<rparr>)"
    using t2 f2 f3 e by blast
  have r3: "MatchAddress knows_nothing (ISD_ADD (ISD_FrameIndex 5) (ISD_Constant 8)) ?B
     = Inr (MatchAddressBase (ISD_ADD (ISD_FrameIndex 5) (ISD_Constant 8)) ?B)"
    using t3 f4 f5 by blast
  have b3: "MatchAddressBase (ISD_ADD (ISD_FrameIndex 5) (ISD_Constant 8)) ?B = (True, ?B)"
    by (simp add: MatchAddressBase_def)
  have u: "?A\<lparr> BaseType := RegBase, Base_Reg := Some (ISD_ADD (OtherNode 1 []) ?Y) \<rparr>
      = ?A\<lparr> Base_Reg := Some (ISD_ADD (OtherNode 1 []) ?Y) \<rparr>"
    by (simp add: new_MAPIPISelAddressMode_def)
  show ?thesis
    using f1 f2 f3 f4 f5 r1 r2 r3 b3 u by simp
qed

subsection \<open>C4: a committed base is kept\<close>

text \<open>
  C4. A base, once committed in an AddressMode (either a register base holding a
  non-empty node reference or a frame-slot base), is never overwritten by any later fold
  on that AddressMode: the Base Finalizer fails (returns true) exactly when a base is
  already committed, and otherwise commits the given node as the register base and
  succeeds; the frame-slot rule likewise commits only when no base is set; and whatever
  node is matched into a mode with a committed base, and whether that match succeeds or
  fails, the three base fields come back as they were.
\<close>

theorem committed_base_is_kept:
  "MatchAddressBase N AM =
     (if base_committed AM then (True, AM)
      else (False, AM\<lparr> BaseType := RegBase, Base_Reg := Some N \<rparr>))
   \<and> MatchAddress mvz (ISD_FrameIndex FI) AM =
     (if base_committed AM then Inr (True, AM)
      else Inr (False, AM\<lparr> BaseType := FrameIndexBase, Base_FrameIndex := FI \<rparr>))
   \<and> (base_committed AM \<and> MatchAddress mvz M AM = Inr (failed, AM') \<longrightarrow>
        BaseType AM' = BaseType AM \<and> Base_Reg AM' = Base_Reg AM
        \<and> Base_FrameIndex AM' = Base_FrameIndex AM \<and> base_committed AM')"
proof -
  have 1: "MatchAddress mvz (ISD_FrameIndex FI) AM =
     (if base_committed AM then Inr (True, AM)
      else Inr (False, AM\<lparr> BaseType := FrameIndexBase, Base_FrameIndex := FI \<rparr>))"
    by (cases "BaseType AM") (auto simp: MatchAddressBase_def base_committed_def)
  have 2: "base_of AM' = base_of AM \<and> base_committed AM'"
    if "base_committed AM" "MatchAddress mvz M AM = Inr (failed, AM')"
    using base_preserved[OF that] base_of_committed[of AM' AM] that(1) by simp
  show ?thesis
    using 1 2 by (simp add: MatchAddressBase_cases base_of_def)
qed

text \<open>A frame slot is committed into the empty mode; a second frame slot and an opaque
  node are then refused; a later fold of constants keeps the base.\<close>

theorem committed_base_is_kept_witness:
  "base_committed ((new_MAPIPISelAddressMode 0)\<lparr> BaseType := FrameIndexBase, Base_FrameIndex := 5 \<rparr>)
   \<and> \<not> base_committed (new_MAPIPISelAddressMode 0)
   \<and> MatchAddress knows_nothing (ISD_FrameIndex 5) (new_MAPIPISelAddressMode 0)
       = Inr (False, (new_MAPIPISelAddressMode 0)\<lparr> BaseType := FrameIndexBase, Base_FrameIndex := 5 \<rparr>)
   \<and> MatchAddress knows_nothing (ISD_FrameIndex 6)
        ((new_MAPIPISelAddressMode 0)\<lparr> BaseType := FrameIndexBase, Base_FrameIndex := 5 \<rparr>)
       = Inr (True, (new_MAPIPISelAddressMode 0)\<lparr> BaseType := FrameIndexBase, Base_FrameIndex := 5 \<rparr>)
   \<and> MatchAddressBase (OtherNode 1 [])
        ((new_MAPIPISelAddressMode 0)\<lparr> BaseType := FrameIndexBase, Base_FrameIndex := 5 \<rparr>)
       = (True, (new_MAPIPISelAddressMode 0)\<lparr> BaseType := FrameIndexBase, Base_FrameIndex := 5 \<rparr>)
   \<and> MatchAddressBase (OtherNode 1 []) (new_MAPIPISelAddressMode 0)
       = (False, (new_MAPIPISelAddressMode 0)\<lparr> Base_Reg := Some (OtherNode 1 []) \<rparr>)
   \<and> MatchAddress knows_nothing (ISD_ADD (ISD_Constant 3) (ISD_Constant 5))
        ((new_MAPIPISelAddressMode 0)\<lparr> BaseType := FrameIndexBase, Base_FrameIndex := 5 \<rparr>)
       = Inr (False, (new_MAPIPISelAddressMode 0)
               \<lparr> BaseType := FrameIndexBase, Base_FrameIndex := 5, Disp := 8 \<rparr>)"
proof -
  let ?A = "new_MAPIPISelAddressMode 0"
  let ?F = "(new_MAPIPISelAddressMode 0)\<lparr> BaseType := FrameIndexBase, Base_FrameIndex := 5 \<rparr>"
  have c: "base_committed ?F" and n: "\<not> base_committed ?A"
    by (simp_all add: base_committed_def new_MAPIPISelAddressMode_def)
  have m: "MatchAddress knows_nothing (ISD_ADD (ISD_Constant 3) (ISD_Constant 5)) ?F
       = Inr (False, ?F\<lparr> Disp := 8 \<rparr>)"
    by (simp add: new_MAPIPISelAddressMode_def MatchAddressBase_def)
  show ?thesis
    using committed_base_is_kept[of "OtherNode 1 []" ?F knows_nothing 6
        "ISD_ADD (ISD_Constant 3) (ISD_Constant 5)" False "?F\<lparr> Disp := 8 \<rparr>"]
      committed_base_is_kept[of "OtherNode 1 []" ?A knows_nothing 5
        "ISD_Constant 8" False "?A\<lparr> Disp := 8 \<rparr>"] c n m
    by (simp add: new_MAPIPISelAddressMode_def)
qed

subsection \<open>C7: with no base committed the match succeeds\<close>

text \<open>
  C7. If MatchAddress is called on any node with an AddressMode whose base is
  uncommitted (register base with empty node reference), it always reports success
  (returns false); in particular SelectAddr, which starts from a freshly constructed
  empty AddressMode, always returns true, so the match-failure branch for constraint
  \<open>m\<close> in SelectInlineAsmMemoryOperand is unreachable.

  For every node the result is never a failure, and SelectAddr never returns false. That
  the call returns at all needs the expression to be well formed: a wrapper over a node
  that is not one of the five symbol classes stops the compiler in \<^verbatim>\<open>cast<>\<close>. On
  a well-formed expression MatchAddress returns success, SelectAddr returns its two
  operands, and SelectInlineAsmMemoryOperand appends them and reports success.
\<close>

theorem uncommitted_base_always_matches:
  "(BaseType AM = RegBase \<and> Base_Reg AM = None \<and> wrappers_ok N \<longrightarrow>
      (\<exists>AM'. MatchAddress mvz N AM = Inr (False, AM')))
   \<and> (BaseType AM = RegBase \<and> Base_Reg AM = None \<longrightarrow>
      (\<forall>AM'. MatchAddress mvz N AM \<noteq> Inr (True, AM')))
   \<and> SelectAddr mvz PointerTy getValueType fi N \<noteq> Inr None
   \<and> (wrappers_ok N \<longrightarrow>
      (\<exists>Op0 Op1. SelectAddr mvz PointerTy getValueType fi N = Inr (Some (Op0, Op1))
         \<and> SelectInlineAsmMemoryOperand mvz PointerTy getValueType fi N (CHR ''m'') OutOps
             = Inr (False, OutOps @ [Op0, Op1])))"
proof -
  have nf: "MatchAddress mvz N A \<noteq> Inr (True, A')" if "BaseType A = RegBase \<and> Base_Reg A = None"
    for A A'
    using that by (intro never_fails) (simp add: base_committed_def)
  have ok: "\<exists>A'. MatchAddress mvz N A = Inr (False, A')"
    if a: "BaseType A = RegBase \<and> Base_Reg A = None" and w: "wrappers_ok N" for A
  proof -
    obtain r A' where "MatchAddress mvz N A = Inr (r, A')" using no_abort[OF w] by blast
    then show ?thesis using nf[OF a] by (cases r) auto
  qed
  have fresh: "BaseType (new_MAPIPISelAddressMode fi) = RegBase
      \<and> Base_Reg (new_MAPIPISelAddressMode fi) = None"
    by (simp add: new_MAPIPISelAddressMode_def)
  have s1: "SelectAddr mvz PointerTy getValueType fi N \<noteq> Inr None"
    using nf[OF fresh] by (auto simp: SelectAddr_def split: sum.splits prod.splits if_splits)
  have s2: "\<exists>Op0 Op1. SelectAddr mvz PointerTy getValueType fi N = Inr (Some (Op0, Op1))
         \<and> SelectInlineAsmMemoryOperand mvz PointerTy getValueType fi N (CHR ''m'') OutOps
             = Inr (False, OutOps @ [Op0, Op1])" if w: "wrappers_ok N"
  proof -
    obtain A' where "MatchAddress mvz N (new_MAPIPISelAddressMode fi) = Inr (False, A')"
      using ok[OF fresh w] by blast
    then show ?thesis by (simp add: SelectAddr_def SelectInlineAsmMemoryOperand_def)
  qed
  show ?thesis using nf ok s1 s2 by blast
qed

text \<open>Two opaque operands under an addition: the addition becomes the base.\<close>

theorem uncommitted_base_always_matches_witness:
  "BaseType (new_MAPIPISelAddressMode 0) = RegBase \<and> Base_Reg (new_MAPIPISelAddressMode 0) = None
   \<and> wrappers_ok (ISD_ADD (OtherNode 1 []) (ISD_ADD (OtherNode 2 []) (ISD_Constant 4)))
   \<and> MatchAddress knows_nothing
        (ISD_ADD (OtherNode 1 []) (ISD_ADD (OtherNode 2 []) (ISD_Constant 4)))
        (new_MAPIPISelAddressMode 0)
       = Inr (False, (new_MAPIPISelAddressMode 0)
               \<lparr> Base_Reg := Some (ISD_ADD (OtherNode 1 []) (ISD_ADD (OtherNode 2 []) (ISD_Constant 4))) \<rparr>)
   \<and> SelectAddr knows_nothing i16 all_i16 0
        (ISD_ADD (OtherNode 1 []) (ISD_ADD (OtherNode 2 []) (ISD_Constant 4)))
       = Inr (Some (Node (ISD_ADD (OtherNode 1 []) (ISD_ADD (OtherNode 2 []) (ISD_Constant 4))),
                    TargetConstant 0 i16))
   \<and> SelectInlineAsmMemoryOperand knows_nothing i16 all_i16 0
        (ISD_ADD (OtherNode 1 []) (ISD_ADD (OtherNode 2 []) (ISD_Constant 4))) (CHR ''m'') []
       = Inr (False, [Node (ISD_ADD (OtherNode 1 []) (ISD_ADD (OtherNode 2 []) (ISD_Constant 4))),
                      TargetConstant 0 i16])"
proof -
  let ?N = "ISD_ADD (OtherNode 1 []) (ISD_ADD (OtherNode 2 []) (ISD_Constant 4))"
  have m: "MatchAddress knows_nothing ?N (new_MAPIPISelAddressMode 0)
       = Inr (False, (new_MAPIPISelAddressMode 0)\<lparr> Base_Reg := Some ?N \<rparr>)"
    by (simp add: new_MAPIPISelAddressMode_def MatchAddressBase_def)
  show ?thesis
    using uncommitted_base_always_matches
      [of "new_MAPIPISelAddressMode 0" ?N knows_nothing i16 all_i16 0 "[]"] m
    by (simp add: SelectAddr_def SelectInlineAsmMemoryOperand_def SelectAddr_Base_def
        SelectAddr_Disp_def all_i16_def) (simp add: new_MAPIPISelAddressMode_def)
qed

subsection \<open>C10: matching a constant subtree again\<close>

text \<open>
  C10 as stated: folding is idempotent on a fully-constant subtree: re-matching the same
  subtree object twice yields bit-identical AddressMode results.

  This fails. Matching the constant 1 into the fresh mode leaves the displacement 1;
  matching the same node again into that mode leaves the displacement 2, because
  \<^verbatim>\<open>AM.Disp += Val\<close> accumulates.
\<close>

theorem folding_twice_counterexample:
  "constant_tree (ISD_Constant 1)
   \<and> MatchAddress knows_nothing (ISD_Constant 1) (new_MAPIPISelAddressMode 0)
       = Inr (False, (new_MAPIPISelAddressMode 0)\<lparr> Disp := 1 \<rparr>)
   \<and> MatchAddress knows_nothing (ISD_Constant 1) ((new_MAPIPISelAddressMode 0)\<lparr> Disp := 1 \<rparr>)
       = Inr (False, (new_MAPIPISelAddressMode 0)\<lparr> Disp := 2 \<rparr>)
   \<and> (new_MAPIPISelAddressMode 0)\<lparr> Disp := 2 \<rparr> \<noteq> (new_MAPIPISelAddressMode 0)\<lparr> Disp := 1 \<rparr>"
  by (simp add: new_MAPIPISelAddressMode_def)

text \<open>
  C10 as amended: matching a fully-constant subtree is repeatable from the same
  starting AddressMode: two matches of the same subtree, started from the same mode,
  yield identical results, whatever the DAG's bit analysis answers in either run.
  Matching the subtree again into the mode that the first match left adds the sum of
  the constant leaves to the displacement a second time and changes nothing else, so
  folding is idempotent exactly when that sum is zero in the 16 bits of the
  displacement.
\<close>

theorem refolding_constant_tree:
  assumes "constant_tree N"
  shows "MatchAddress mvz1 N AM = Inr (False, AM\<lparr> Disp := Disp AM + word_of_int (leaf_sum N) \<rparr>)
     \<and> MatchAddress mvz2 N AM = MatchAddress mvz1 N AM
     \<and> MatchAddress mvz2 N (AM\<lparr> Disp := Disp AM + word_of_int (leaf_sum N) \<rparr>)
         = Inr (False, AM\<lparr> Disp := Disp AM + 2 * word_of_int (leaf_sum N) \<rparr>)
     \<and> (MatchAddress mvz2 N (AM\<lparr> Disp := Disp AM + word_of_int (leaf_sum N) \<rparr>)
           = MatchAddress mvz1 N AM
         \<longleftrightarrow> (word_of_int (leaf_sum N) :: 16 word) = 0)"
proof -
  let ?s = "word_of_int (leaf_sum N) :: 16 word"
  have 1: "MatchAddress mvz N A = Inr (False, A\<lparr> Disp := Disp A + ?s \<rparr>)" for mvz A
    by (rule constant_tree_fold [OF assms])
  have 2: "MatchAddress mvz2 N (AM\<lparr> Disp := Disp AM + ?s \<rparr>)
         = Inr (False, AM\<lparr> Disp := Disp AM + 2 * ?s \<rparr>)"
    by (simp add: 1)
  have 3: "AM\<lparr> Disp := Disp AM + 2 * ?s \<rparr> = AM\<lparr> Disp := Disp AM + ?s \<rparr> \<longleftrightarrow> ?s = 0"
  proof
    assume "AM\<lparr> Disp := Disp AM + 2 * ?s \<rparr> = AM\<lparr> Disp := Disp AM + ?s \<rparr>"
    then have "Disp (AM\<lparr> Disp := Disp AM + 2 * ?s \<rparr>) = Disp (AM\<lparr> Disp := Disp AM + ?s \<rparr>)"
      by (rule arg_cong)
    then show "?s = 0" by simp
  next
    assume "?s = 0"
    then show "AM\<lparr> Disp := Disp AM + 2 * ?s \<rparr> = AM\<lparr> Disp := Disp AM + ?s \<rparr>" by simp
  qed
  show ?thesis
    unfolding 2 unfolding 1 using 3 by simp
qed

text \<open>The leaves 2 and -7: the displacement is -5 after one match and -10 after the
  second. The leaves 9 and -9: the sum is zero and a match leaves the mode as it was.\<close>

theorem refolding_constant_tree_witness:
  "constant_tree (ISD_ADD (ISD_Constant 2) (ISD_Constant (- 7)))
   \<and> leaf_sum (ISD_ADD (ISD_Constant 2) (ISD_Constant (- 7))) = - 5
   \<and> MatchAddress knows_nothing (ISD_ADD (ISD_Constant 2) (ISD_Constant (- 7))) (new_MAPIPISelAddressMode 0)
     = Inr (False, (new_MAPIPISelAddressMode 0)\<lparr> Disp := - 5 \<rparr>)
   \<and> MatchAddress low_two_bits_zero (ISD_ADD (ISD_Constant 2) (ISD_Constant (- 7))) (new_MAPIPISelAddressMode 0)
     = Inr (False, (new_MAPIPISelAddressMode 0)\<lparr> Disp := - 5 \<rparr>)
   \<and> MatchAddress low_two_bits_zero (ISD_ADD (ISD_Constant 2) (ISD_Constant (- 7)))
        ((new_MAPIPISelAddressMode 0)\<lparr> Disp := - 5 \<rparr>)
     = Inr (False, (new_MAPIPISelAddressMode 0)\<lparr> Disp := - 10 \<rparr>)
   \<and> constant_tree (ISD_ADD (ISD_Constant 9) (ISD_Constant (- 9)))
   \<and> MatchAddress knows_nothing (ISD_ADD (ISD_Constant 9) (ISD_Constant (- 9)))
        ((new_MAPIPISelAddressMode 0)\<lparr> Disp := 4 \<rparr>)
     = Inr (False, (new_MAPIPISelAddressMode 0)\<lparr> Disp := 4 \<rparr>)"
  using refolding_constant_tree
    [of "ISD_ADD (ISD_Constant 2) (ISD_Constant (- 7))" knows_nothing "new_MAPIPISelAddressMode 0"
        low_two_bits_zero]
    refolding_constant_tree
    [of "ISD_ADD (ISD_Constant 9) (ISD_Constant (- 9))" knows_nothing
        "(new_MAPIPISelAddressMode 0)\<lparr> Disp := 4 \<rparr>" knows_nothing]
  by (simp add: new_MAPIPISelAddressMode_def)

subsection \<open>C6: the operands SelectAddr builds\<close>

text \<open>
  C6. For every completed AddressMode, the Memory Operand Synthesizer produces: as base,
  the zero-register placeholder if the register base is unset, the register base node
  if set, or a target-frame-reference operand at pointer width if the base is a frame
  slot; and as displacement, exactly one of six forms chosen by first-match precedence
  global-symbol (with addend) > constant-pool (with addend and alignment) >
  external-symbol > jump-table > code-label > plain numeric displacement. SelectAddr
  returns these two operands for the mode that matching the address into a fresh mode
  left.
\<close>

theorem SelectAddr_operands:
  "(BaseType AM = RegBase \<and> Base_Reg AM = None \<longrightarrow>
      SelectAddr_Base PointerTy VT AM = Register 0 VT)
   \<and> (BaseType AM = RegBase \<and> Base_Reg AM = Some R \<longrightarrow>
      SelectAddr_Base PointerTy VT AM = Node R)
   \<and> (BaseType AM = FrameIndexBase \<longrightarrow>
      SelectAddr_Base PointerTy VT AM = TargetFrameIndex (Base_FrameIndex AM) PointerTy)
   \<and> (GV AM = Some g \<longrightarrow> SelectAddr_Disp AM = TargetGlobalAddress g i16 (Disp AM) 0)
   \<and> (GV AM = None \<and> CP AM = Some c \<longrightarrow>
      SelectAddr_Disp AM = TargetConstantPool c i16 (Align AM) (Disp AM) 0)
   \<and> (GV AM = None \<and> CP AM = None \<and> ES AM = Some s \<longrightarrow>
      SelectAddr_Disp AM = TargetExternalSymbol s i16 0)
   \<and> (GV AM = None \<and> CP AM = None \<and> ES AM = None \<and> JT AM \<noteq> - 1 \<longrightarrow>
      SelectAddr_Disp AM = TargetJumpTable (JT AM) i16 0)
   \<and> (GV AM = None \<and> CP AM = None \<and> ES AM = None \<and> JT AM = - 1 \<and> BlockAddr AM = Some b \<longrightarrow>
      SelectAddr_Disp AM = BlockAddressValue b i32 True 0)
   \<and> (GV AM = None \<and> CP AM = None \<and> ES AM = None \<and> JT AM = - 1 \<and> BlockAddr AM = None \<longrightarrow>
      SelectAddr_Disp AM = TargetConstant (Disp AM) i16)
   \<and> (SelectAddr mvz PointerTy getValueType fi N = Inr (Some (Op0, Op1)) \<longleftrightarrow>
      (\<exists>AM'. MatchAddress mvz N (new_MAPIPISelAddressMode fi) = Inr (False, AM')
         \<and> Op0 = SelectAddr_Base PointerTy (getValueType N) AM' \<and> Op1 = SelectAddr_Disp AM'))"
proof -
  have "SelectAddr mvz PointerTy getValueType fi N = Inr (Some (Op0, Op1)) \<longleftrightarrow>
      (\<exists>AM'. MatchAddress mvz N (new_MAPIPISelAddressMode fi) = Inr (False, AM')
         \<and> Op0 = SelectAddr_Base PointerTy (getValueType N) AM' \<and> Op1 = SelectAddr_Disp AM')"
    by (auto simp: SelectAddr_def split: sum.splits prod.splits if_splits)
  then show ?thesis
    by (simp add: SelectAddr_Base_def SelectAddr_Disp_def)
qed


text \<open>One mode for each form of base and displacement, and the address
  \<open>ADD (Wrapper (global 1 + 4)) (Constant 2)\<close> through SelectAddr.\<close>

theorem SelectAddr_operands_witness:
  "SelectAddr_Base i32 i16 (new_MAPIPISelAddressMode 0) = Register 0 i16
   \<and> SelectAddr_Base i32 i16 ((new_MAPIPISelAddressMode 0)\<lparr> Base_Reg := Some (OtherNode 1 []) \<rparr>)
       = Node (OtherNode 1 [])
   \<and> SelectAddr_Base i32 i16
        ((new_MAPIPISelAddressMode 0)\<lparr> BaseType := FrameIndexBase, Base_FrameIndex := 5 \<rparr>)
       = TargetFrameIndex 5 i32
   \<and> SelectAddr_Disp ((new_MAPIPISelAddressMode 0)\<lparr> GV := Some 1, Disp := 6 \<rparr>)
       = TargetGlobalAddress 1 i16 6 0
   \<and> SelectAddr_Disp ((new_MAPIPISelAddressMode 0)\<lparr> CP := Some 2, Align := 4, Disp := 6 \<rparr>)
       = TargetConstantPool 2 i16 4 6 0
   \<and> SelectAddr_Disp ((new_MAPIPISelAddressMode 0)\<lparr> ES := Some ''memcpy'', Disp := 6 \<rparr>)
       = TargetExternalSymbol ''memcpy'' i16 0
   \<and> SelectAddr_Disp ((new_MAPIPISelAddressMode 0)\<lparr> JT := 3, Disp := 6 \<rparr>)
       = TargetJumpTable 3 i16 0
   \<and> SelectAddr_Disp ((new_MAPIPISelAddressMode 0)\<lparr> BlockAddr := Some 7, Disp := 6 \<rparr>)
       = BlockAddressValue 7 i32 True 0
   \<and> SelectAddr_Disp ((new_MAPIPISelAddressMode 0)\<lparr> Disp := 6 \<rparr>) = TargetConstant 6 i16
   \<and> SelectAddr knows_nothing i32 all_i16 0
        (ISD_ADD (MAPIPISD_Wrapper (GlobalAddressSDNode 1 4)) (ISD_Constant 2))
       = Inr (Some (Register 0 i16, TargetGlobalAddress 1 i16 6 0))"
proof -
  let ?A = "new_MAPIPISelAddressMode 0"
  let ?N = "ISD_ADD (MAPIPISD_Wrapper (GlobalAddressSDNode 1 4)) (ISD_Constant 2)"
  have m: "MatchAddress knows_nothing ?N ?A = Inr (False, ?A\<lparr> GV := Some 1, Disp := 6 \<rparr>)"
    by (simp add: new_MAPIPISelAddressMode_def MatchWrapper_def getOperand_def
        hasSymbolicDisplacement_def)
  have f: "BaseType ?A = RegBase" "Base_Reg ?A = None" "GV ?A = None" "CP ?A = None"
    "ES ?A = None" "JT ?A = - 1" "BlockAddr ?A = None"
    by (simp_all add: new_MAPIPISelAddressMode_def)
  note t = SelectAddr_operands[where PointerTy = i32 and VT = i16 and mvz = knows_nothing
      and getValueType = all_i16 and fi = 0 and N = ?N and ?Op0.0 = "Register 0 i16"
      and ?Op1.0 = "TargetGlobalAddress 1 i16 6 0"]
  have 1: "SelectAddr_Base i32 i16 ?A = Register 0 i16"
    using t[where AM = ?A] f by simp
  have 2: "SelectAddr_Base i32 i16 (?A\<lparr> Base_Reg := Some (OtherNode 1 []) \<rparr>) = Node (OtherNode 1 [])"
    using t[where AM = "?A\<lparr> Base_Reg := Some (OtherNode 1 []) \<rparr>" and R = "OtherNode 1 []"] f by simp
  have 3: "SelectAddr_Base i32 i16 (?A\<lparr> BaseType := FrameIndexBase, Base_FrameIndex := 5 \<rparr>)
       = TargetFrameIndex 5 i32"
    using t[where AM = "?A\<lparr> BaseType := FrameIndexBase, Base_FrameIndex := 5 \<rparr>"] by simp
  have 4: "SelectAddr_Disp (?A\<lparr> GV := Some 1, Disp := 6 \<rparr>) = TargetGlobalAddress 1 i16 6 0"
    using t[where AM = "?A\<lparr> GV := Some 1, Disp := 6 \<rparr>" and g = 1] by simp
  have 5: "SelectAddr_Disp (?A\<lparr> CP := Some 2, Align := 4, Disp := 6 \<rparr>)
       = TargetConstantPool 2 i16 4 6 0"
    using t[where AM = "?A\<lparr> CP := Some 2, Align := 4, Disp := 6 \<rparr>" and c = 2] f by simp
  have 6: "SelectAddr_Disp (?A\<lparr> ES := Some ''memcpy'', Disp := 6 \<rparr>)
       = TargetExternalSymbol ''memcpy'' i16 0"
    using t[where AM = "?A\<lparr> ES := Some ''memcpy'', Disp := 6 \<rparr>" and s = "''memcpy''"] f by simp
  have 7: "SelectAddr_Disp (?A\<lparr> JT := 3, Disp := 6 \<rparr>) = TargetJumpTable 3 i16 0"
    using t[where AM = "?A\<lparr> JT := 3, Disp := 6 \<rparr>"] f by simp
  have 8: "SelectAddr_Disp (?A\<lparr> BlockAddr := Some 7, Disp := 6 \<rparr>) = BlockAddressValue 7 i32 True 0"
    using t[where AM = "?A\<lparr> BlockAddr := Some 7, Disp := 6 \<rparr>" and b = 7] f by simp
  have 9: "SelectAddr_Disp (?A\<lparr> Disp := 6 \<rparr>) = TargetConstant 6 i16"
    using t[where AM = "?A\<lparr> Disp := 6 \<rparr>"] f by simp
  have 10: "SelectAddr knows_nothing i32 all_i16 0 ?N
       = Inr (Some (Register 0 i16, TargetGlobalAddress 1 i16 6 0))"
    unfolding SelectAddr_def m
    by (simp add: SelectAddr_Base_def SelectAddr_Disp_def all_i16_def new_MAPIPISelAddressMode_def)
  show ?thesis using 1 2 3 4 5 6 7 8 9 10 by simp
qed

subsection \<open>C8: the inline-assembly memory operand\<close>

text \<open>
  C8. The inline-assembly memory operand adapter supports only constraint code \<open>m\<close>:
  for every other constraint code it reports failure immediately without attempting any
  address match (whatever the operand is, also one on which the matcher would not
  return, and leaving the operand vector as it was); on \<open>m\<close> it runs the Address
  Matcher and Synthesizer: its result is decided by that of SelectAddr, failure with the
  operand vector unchanged if the match fails, and if the match succeeds with the mode
  \<open>AM'\<close> it returns success with exactly the two synthesized operands of \<open>AM'\<close>, base
  then displacement, appended to the operand vector. On a well-formed operand it does
  return, and with success. Conversely, whenever it returns under \<open>m\<close>, the flag is
  true exactly when SelectAddr returned false, and otherwise the operands appended are
  those of the matched mode. When the matcher does not return, neither does the adapter.
\<close>

theorem inline_asm_memory_operand:
  "(ConstraintCode \<noteq> CHR ''m'' \<longrightarrow>
      SelectInlineAsmMemoryOperand mvz PointerTy getValueType fi Op ConstraintCode OutOps
        = Inr (True, OutOps))
   \<and> SelectInlineAsmMemoryOperand mvz PointerTy getValueType fi Op (CHR ''m'') OutOps
        = (case SelectAddr mvz PointerTy getValueType fi Op of
             Inl e \<Rightarrow> Inl e
           | Inr None \<Rightarrow> Inr (True, OutOps)
           | Inr (Some (Op0, Op1)) \<Rightarrow> Inr (False, OutOps @ [Op0, Op1]))
   \<and> (MatchAddress mvz Op (new_MAPIPISelAddressMode fi) = Inr (False, AM') \<longrightarrow>
        SelectAddr mvz PointerTy getValueType fi Op
          = Inr (Some (SelectAddr_Base PointerTy (getValueType Op) AM', SelectAddr_Disp AM'))
        \<and> SelectInlineAsmMemoryOperand mvz PointerTy getValueType fi Op (CHR ''m'') OutOps
          = Inr (False, OutOps @ [SelectAddr_Base PointerTy (getValueType Op) AM',
                                  SelectAddr_Disp AM']))
   \<and> (wrappers_ok Op \<longrightarrow>
        (\<exists>AM'. MatchAddress mvz Op (new_MAPIPISelAddressMode fi) = Inr (False, AM')
           \<and> SelectInlineAsmMemoryOperand mvz PointerTy getValueType fi Op (CHR ''m'') OutOps
              = Inr (False, OutOps @ [SelectAddr_Base PointerTy (getValueType Op) AM',
                                      SelectAddr_Disp AM'])))
   \<and> (SelectInlineAsmMemoryOperand mvz PointerTy getValueType fi Op (CHR ''m'') OutOps
        = Inr (failed, OutOps') \<longrightarrow>
        (failed \<longleftrightarrow> SelectAddr mvz PointerTy getValueType fi Op = Inr None)
        \<and> (failed \<longrightarrow> OutOps' = OutOps)
        \<and> (\<not> failed \<longrightarrow>
             (\<exists>AM'. MatchAddress mvz Op (new_MAPIPISelAddressMode fi) = Inr (False, AM')
                \<and> SelectAddr mvz PointerTy getValueType fi Op
                    = Inr (Some (SelectAddr_Base PointerTy (getValueType Op) AM', SelectAddr_Disp AM'))
                \<and> OutOps' = OutOps @ [SelectAddr_Base PointerTy (getValueType Op) AM',
                                       SelectAddr_Disp AM'])))
   \<and> (SelectAddr mvz PointerTy getValueType fi Op = Inl e \<longrightarrow>
        SelectInlineAsmMemoryOperand mvz PointerTy getValueType fi Op (CHR ''m'') OutOps = Inl e)"
proof -
  let ?B = "\<lambda>A. SelectAddr_Base PointerTy (getValueType Op) A"
  have 1: "ConstraintCode \<noteq> CHR ''m'' \<longrightarrow>
      SelectInlineAsmMemoryOperand mvz PointerTy getValueType fi Op ConstraintCode OutOps
        = Inr (True, OutOps)"
    by (simp add: SelectInlineAsmMemoryOperand_def)
  have eq: "SelectInlineAsmMemoryOperand mvz PointerTy getValueType fi Op (CHR ''m'') OutOps
        = (case SelectAddr mvz PointerTy getValueType fi Op of
             Inl e \<Rightarrow> Inl e
           | Inr None \<Rightarrow> Inr (True, OutOps)
           | Inr (Some (Op0, Op1)) \<Rightarrow> Inr (False, OutOps @ [Op0, Op1]))"
    by (simp add: SelectInlineAsmMemoryOperand_def)
  have ok: "SelectAddr mvz PointerTy getValueType fi Op = Inr (Some (?B A, SelectAddr_Disp A))
        \<and> SelectInlineAsmMemoryOperand mvz PointerTy getValueType fi Op (CHR ''m'') OutOps
          = Inr (False, OutOps @ [?B A, SelectAddr_Disp A])"
    if "MatchAddress mvz Op (new_MAPIPISelAddressMode fi) = Inr (False, A)" for A
    using that by (simp add: SelectInlineAsmMemoryOperand_def SelectAddr_def)
  have wf: "\<exists>AM'. MatchAddress mvz Op (new_MAPIPISelAddressMode fi) = Inr (False, AM')
           \<and> SelectInlineAsmMemoryOperand mvz PointerTy getValueType fi Op (CHR ''m'') OutOps
              = Inr (False, OutOps @ [?B AM', SelectAddr_Disp AM'])" if w: "wrappers_ok Op"
  proof -
    obtain r A where m: "MatchAddress mvz Op (new_MAPIPISelAddressMode fi) = Inr (r, A)"
      using no_abort[OF w] by blast
    have "\<not> base_committed (new_MAPIPISelAddressMode fi)"
      by (simp add: base_committed_def new_MAPIPISelAddressMode_def)
    then have "\<not> r" using never_fails[of "new_MAPIPISelAddressMode fi" mvz Op A] m by auto
    then show ?thesis using m ok[of A] by auto
  qed
  have 2: "SelectInlineAsmMemoryOperand mvz PointerTy getValueType fi Op (CHR ''m'') OutOps
        = Inr (failed, OutOps') \<longrightarrow>
        (failed \<longleftrightarrow> SelectAddr mvz PointerTy getValueType fi Op = Inr None)
        \<and> (failed \<longrightarrow> OutOps' = OutOps)
        \<and> (\<not> failed \<longrightarrow>
             (\<exists>AM'. MatchAddress mvz Op (new_MAPIPISelAddressMode fi) = Inr (False, AM')
                \<and> SelectAddr mvz PointerTy getValueType fi Op
                    = Inr (Some (?B AM', SelectAddr_Disp AM'))
                \<and> OutOps' = OutOps @ [?B AM', SelectAddr_Disp AM']))"
    by (auto simp: SelectInlineAsmMemoryOperand_def SelectAddr_def
        split: sum.splits prod.splits if_splits option.splits)
  have 3: "SelectAddr mvz PointerTy getValueType fi Op = Inl e \<longrightarrow>
        SelectInlineAsmMemoryOperand mvz PointerTy getValueType fi Op (CHR ''m'') OutOps = Inl e"
    by (simp add: SelectInlineAsmMemoryOperand_def)
  show ?thesis using 1 eq ok[of AM'] wf 2 3 by blast
qed

text \<open>A frame slot plus a constant under \<open>m\<close> and under \<open>r\<close>; a wrapper over a
  constant stops the matcher under \<open>m\<close> and is not looked at under \<open>r\<close>.\<close>

theorem inline_asm_memory_operand_witness:
  "MatchAddress knows_nothing (ISD_ADD (ISD_FrameIndex 5) (ISD_Constant 8)) (new_MAPIPISelAddressMode 0)
     = Inr (False, (new_MAPIPISelAddressMode 0)
             \<lparr> BaseType := FrameIndexBase, Base_FrameIndex := 5, Disp := 8 \<rparr>)
   \<and> wrappers_ok (ISD_ADD (ISD_FrameIndex 5) (ISD_Constant 8))
   \<and> SelectInlineAsmMemoryOperand knows_nothing i32 all_i16 0
      (ISD_ADD (ISD_FrameIndex 5) (ISD_Constant 8)) (CHR ''m'') []
     = Inr (False, [TargetFrameIndex 5 i32, TargetConstant 8 i16])
   \<and> SelectInlineAsmMemoryOperand knows_nothing i32 all_i16 0
      (ISD_ADD (ISD_FrameIndex 5) (ISD_Constant 8)) (CHR ''r'') []
     = Inr (True, [])
   \<and> SelectAddr knows_nothing i32 all_i16 0 (MAPIPISD_Wrapper (ISD_Constant 0)) = Inl CastFailure
   \<and> SelectInlineAsmMemoryOperand knows_nothing i32 all_i16 0
      (MAPIPISD_Wrapper (ISD_Constant 0)) (CHR ''m'') [] = Inl CastFailure
   \<and> SelectInlineAsmMemoryOperand knows_nothing i32 all_i16 0
      (MAPIPISD_Wrapper (ISD_Constant 0)) (CHR ''r'') [] = Inr (True, [])"
proof -
  let ?N = "ISD_ADD (ISD_FrameIndex 5) (ISD_Constant 8)"
  let ?W = "MAPIPISD_Wrapper (ISD_Constant 0)"
  let ?R = "(new_MAPIPISelAddressMode 0)\<lparr> BaseType := FrameIndexBase, Base_FrameIndex := 5, Disp := 8 \<rparr>"
  have m: "MatchAddress knows_nothing ?N (new_MAPIPISelAddressMode 0) = Inr (False, ?R)"
    by (simp add: new_MAPIPISelAddressMode_def)
  have o: "SelectAddr_Base i32 (all_i16 ?N) ?R = TargetFrameIndex 5 i32"
    "SelectAddr_Disp ?R = TargetConstant 8 i16"
    by (simp_all add: SelectAddr_Base_def SelectAddr_Disp_def new_MAPIPISelAddressMode_def)
  have w: "SelectAddr knows_nothing i32 all_i16 0 ?W = Inl CastFailure"
    by (simp add: SelectAddr_def MatchWrapper_def getOperand_def hasSymbolicDisplacement_def
        new_MAPIPISelAddressMode_def)
  have c: "CHR ''r'' \<noteq> CHR ''m''" by simp
  note t = inline_asm_memory_operand[where ConstraintCode = "CHR ''r''" and mvz = knows_nothing
      and PointerTy = i32 and getValueType = all_i16 and fi = 0 and OutOps = "[]"
      and e = CastFailure]
  have s: "SelectInlineAsmMemoryOperand knows_nothing i32 all_i16 0 ?N (CHR ''m'') []
     = Inr (False, [] @ [SelectAddr_Base i32 (all_i16 ?N) ?R, SelectAddr_Disp ?R])"
    using t[where Op = ?N and AM' = ?R] m by blast
  have r1: "SelectInlineAsmMemoryOperand knows_nothing i32 all_i16 0 ?N (CHR ''r'') []
     = Inr (True, [])"
    using t[where Op = ?N] c by blast
  have r2: "SelectInlineAsmMemoryOperand knows_nothing i32 all_i16 0 ?W (CHR ''r'') []
     = Inr (True, [])"
    using t[where Op = ?W] c by blast
  have r3: "SelectInlineAsmMemoryOperand knows_nothing i32 all_i16 0 ?W (CHR ''m'') []
     = Inl CastFailure"
    using t[where Op = ?W] w by blast
  have wf: "wrappers_ok ?N" by simp
  show ?thesis
    unfolding m using s[unfolded o] r1 r2 r3 w wf by simp
qed

subsection \<open>C1: one symbolic kind at a time\<close>

text \<open>For the four kinds that \<open>hasSymbolicDisplacement\<close> tests the invariant holds: no
  match sets a second one of them.\<close>

lemma at_most_one_checked_kind_simps [simp]:
  "at_most_one_checked_kind (AM\<lparr> Disp := d \<rparr>) = at_most_one_checked_kind AM"
  "at_most_one_checked_kind (AM\<lparr> Base_Reg := b \<rparr>) = at_most_one_checked_kind AM"
  "at_most_one_checked_kind (AM\<lparr> BaseType := t \<rparr>) = at_most_one_checked_kind AM"
  "at_most_one_checked_kind (AM\<lparr> Base_FrameIndex := i \<rparr>) = at_most_one_checked_kind AM"
  by (simp_all add: at_most_one_checked_kind_def checked_kinds_def)

lemma MatchWrapper_checked_kinds:
  "at_most_one_checked_kind AM \<Longrightarrow> MatchWrapper N AM = Inr (r, AM')
    \<Longrightarrow> at_most_one_checked_kind AM'"
  by (auto simp: MatchWrapper_def hasSymbolicDisplacement_def checked_kinds_def
      at_most_one_checked_kind_def split: if_splits sum.splits SDNode.splits)

lemma MatchAddress_checked_kinds:
  "at_most_one_checked_kind AM \<Longrightarrow> MatchAddress mvz N AM = Inr (r, AM')
    \<Longrightarrow> at_most_one_checked_kind AM'"
proof (induction N arbitrary: AM AM' r)
  case (MAPIPISD_Wrapper N0)
  then show ?case
    by (auto simp: MatchAddressBase_def split: sum.splits prod.splits if_splits
        dest: MatchWrapper_checked_kinds)
next
  case (ISD_ADD N0 N1)
  note IH0 = ISD_ADD.IH(1) and IH1 = ISD_ADD.IH(2)
  have c: "at_most_one_checked_kind AM" by fact
  from ISD_ADD.prems show ?case
    by (auto simp: Let_def MatchAddressBase_def split: sum.splits prod.splits if_splits)
       (metis IH0 IH1 c)+
next
  case (ISD_OR N0 N1)
  note IH0 = ISD_OR.IH(1)
  have c: "at_most_one_checked_kind AM" by fact
  from ISD_OR.prems show ?case
    by (auto simp: Let_def MatchAddressBase_def
        split: sum.splits prod.splits if_splits option.splits dest: IH0[OF c])
qed (auto simp add: MatchAddressBase_def split: if_splits)

lemma new_checked_kinds: "at_most_one_checked_kind (new_MAPIPISelAddressMode fi)"
  by (simp add: at_most_one_checked_kind_def checked_kinds_def new_MAPIPISelAddressMode_def)

text \<open>
  C1. At most one of the symbolic-kind fields (global symbol, constant pool, external
  symbol, jump table, block address) is ever non-empty; an attempt to populate a second
  symbolic kind while one is already set is rejected as a match failure by
  MatchWrapper.

  \<open>hasSymbolicDisplacement\<close> tests \<open>GV\<close>, \<open>CP\<close>, \<open>ES\<close> and \<open>JT\<close> but not
  \<open>BlockAddr\<close>. With a block address already in the mode, MatchWrapper accepts a
  global symbol as well: matching \<open>ADD (Wrapper (block address 7)) (Wrapper (global 3))\<close>
  into the fresh mode succeeds and leaves two symbolic kinds set. In the other order the
  block address is refused.
\<close>

theorem second_symbol_after_block_address:
  "MatchWrapper (MAPIPISD_Wrapper (GlobalAddressSDNode 3 0))
      ((new_MAPIPISelAddressMode 0)\<lparr> BlockAddr := Some 7 \<rparr>)
     = Inr (False, (new_MAPIPISelAddressMode 0)\<lparr> BlockAddr := Some 7, GV := Some 3 \<rparr>)
   \<and> MatchAddress knows_nothing
        (ISD_ADD (MAPIPISD_Wrapper (BlockAddressSDNode 7)) (MAPIPISD_Wrapper (GlobalAddressSDNode 3 0)))
        (new_MAPIPISelAddressMode 0)
     = Inr (False, (new_MAPIPISelAddressMode 0)\<lparr> BlockAddr := Some 7, GV := Some 3 \<rparr>)
   \<and> symbolic_kinds ((new_MAPIPISelAddressMode 0)\<lparr> BlockAddr := Some 7, GV := Some 3 \<rparr>) = 2
   \<and> MatchWrapper (MAPIPISD_Wrapper (BlockAddressSDNode 7))
      ((new_MAPIPISelAddressMode 0)\<lparr> GV := Some 3 \<rparr>)
     = Inr (True, (new_MAPIPISelAddressMode 0)\<lparr> GV := Some 3 \<rparr>)"
  by (simp add: new_MAPIPISelAddressMode_def MatchWrapper_def getOperand_def
      hasSymbolicDisplacement_def symbolic_kinds_def)

subsection \<open>C9: selecting a frame index\<close>

lemma use_count_append:
  "use_count (g @ [nd]) n = use_count g n + count_list (NodeOps nd) n"
  by (simp add: use_count_def)

text \<open>
  C9. For every stack-slot-reference node selected by the Node Selector (of type
  \<open>i16\<close>, as the selector asserts), the replacement is an add-immediate-zero machine
  node over the target frame reference; if the original node has exactly one consumer
  the replacement reuses the original node's identity (in-place rewrite: the result is
  the node itself, now the machine node, and no other node of the DAG changed), and if
  it does not (so also with multiple consumers) a new machine node is allocated while
  the original node remains valid (the result is a node that was not in the DAG, and
  every node that was is unchanged, with as many uses of the original as before);
  nodes already in machine form are returned unchanged (null).
\<close>

theorem frame_index_selection:
  "(N < length g \<and> isMachineOpcode (g ! N) \<longrightarrow> Select SelectCode g N = Inr (g, None))
   \<and> (N < length g \<and> NodeOpcode (g ! N) = Opc_FrameIndex \<and> ValueType (g ! N) = i16
        \<and> hasOneUse g N \<longrightarrow>
      (\<exists>g'. Select SelectCode g N = Inr (g', Some N)
         \<and> g' = (g @ [frame_reference (Payload (g ! N)), zero_constant])
                  [N := add16ri_zero (length g) (length g + 1)]
         \<and> g' ! N = add16ri_zero (length g) (length g + 1)
         \<and> g' ! length g = frame_reference (Payload (g ! N))
         \<and> g' ! (length g + 1) = zero_constant
         \<and> (\<forall>k < length g. k \<noteq> N \<longrightarrow> g' ! k = g ! k)))
   \<and> (N < length g \<and> NodeOpcode (g ! N) = Opc_FrameIndex \<and> ValueType (g ! N) = i16
        \<and> \<not> hasOneUse g N \<longrightarrow>
      (\<exists>g' R. Select SelectCode g N = Inr (g', Some R)
         \<and> g' = g @ [frame_reference (Payload (g ! N)), zero_constant,
                      add16ri_zero (length g) (length g + 1)]
         \<and> R = length g + 2 \<and> \<not> R < length g
         \<and> g' ! R = add16ri_zero (length g) (length g + 1)
         \<and> g' ! length g = frame_reference (Payload (g ! N))
         \<and> g' ! (length g + 1) = zero_constant
         \<and> (\<forall>k < length g. g' ! k = g ! k)
         \<and> use_count g' N = use_count g N))"
proof -
  let ?tfi = "frame_reference (Payload (g ! N))"
  let ?add = "add16ri_zero (length g) (length g + 1)"
  have h: "hasOneUse (g @ [frame_reference FI]) N = hasOneUse g N" for FI
    by (simp add: hasOneUse_def use_count_append frame_reference_def)
  have nm: "NodeOpcode (g ! N) = Opc_FrameIndex \<Longrightarrow> \<not> isMachineOpcode (g ! N)"
    by (simp add: isMachineOpcode_def)
  have 1: "N < length g \<and> isMachineOpcode (g ! N) \<longrightarrow> Select SelectCode g N = Inr (g, None)"
    by (simp add: Select_def)
  have 2: "Select SelectCode g N = Inr ((g @ [?tfi, zero_constant])[N := ?add], Some N)"
    if "N < length g" "NodeOpcode (g ! N) = Opc_FrameIndex" "ValueType (g ! N) = i16"
      "hasOneUse g N"
    using h nm that
    by (simp add: Select_def getTargetFrameIndex_def getTargetConstant_def SelectNodeTo_def
        frame_reference_def[symmetric] zero_constant_def[symmetric] add16ri_zero_def[symmetric])
  have 3: "Select SelectCode g N = Inr (g @ [?tfi, zero_constant, ?add], Some (length g + 2))"
    if "N < length g" "NodeOpcode (g ! N) = Opc_FrameIndex" "ValueType (g ! N) = i16"
      "\<not> hasOneUse g N"
    using h nm that
    by (simp add: Select_def getTargetFrameIndex_def getTargetConstant_def getMachineNode_def
        frame_reference_def[symmetric] zero_constant_def[symmetric] add16ri_zero_def[symmetric])
  have old: "\<forall>k < length g. (g @ xs) ! k = g ! k" for xs :: "DAGNode list"
    by (simp add: nth_append)
  have upd: "\<forall>k < length g. k \<noteq> N \<longrightarrow> ((g @ xs)[N := x]) ! k = g ! k"
    for xs :: "DAGNode list" and x
    by (simp add: nth_append)
  have uc3: "use_count (g @ [?tfi, zero_constant, ?add]) N = use_count g N" if "N < length g"
    using that
    by (simp add: use_count_def frame_reference_def zero_constant_def add16ri_zero_def)
  have c2: "N < length g \<and> NodeOpcode (g ! N) = Opc_FrameIndex \<and> ValueType (g ! N) = i16
        \<and> hasOneUse g N \<longrightarrow>
      (\<exists>g'. Select SelectCode g N = Inr (g', Some N)
         \<and> g' = (g @ [?tfi, zero_constant])[N := ?add]
         \<and> g' ! N = ?add
         \<and> g' ! length g = ?tfi
         \<and> g' ! (length g + 1) = zero_constant
         \<and> (\<forall>k < length g. k \<noteq> N \<longrightarrow> g' ! k = g ! k))"
    using 2 upd[of "[?tfi, zero_constant]" ?add] by (simp add: nth_append)
  have c3: "N < length g \<and> NodeOpcode (g ! N) = Opc_FrameIndex \<and> ValueType (g ! N) = i16
        \<and> \<not> hasOneUse g N \<longrightarrow>
      (\<exists>g' R. Select SelectCode g N = Inr (g', Some R)
         \<and> g' = g @ [?tfi, zero_constant, ?add]
         \<and> R = length g + 2 \<and> \<not> R < length g
         \<and> g' ! R = ?add
         \<and> g' ! length g = ?tfi
         \<and> g' ! (length g + 1) = zero_constant
         \<and> (\<forall>k < length g. g' ! k = g ! k)
         \<and> use_count g' N = use_count g N)"
    using 3 old[of "[?tfi, zero_constant, ?add]"] uc3 by (simp add: nth_append)
  show ?thesis using 1 c2 c3 by blast
qed

text \<open>A frame index with one user is rewritten in place; with three uses a sixth node
  is allocated; a machine node is left alone.\<close>

theorem frame_index_selection_witness:
  "Select no_SelectCode [frame_index_node 5, user_node [0]] 0
     = Inr ([add16ri_zero 2 3, user_node [0], frame_reference 5, zero_constant], Some 0)
   \<and> hasOneUse [frame_index_node 5, user_node [0]] 0
   \<and> Select no_SelectCode [frame_index_node 5, user_node [0], user_node [0, 0]] 0
     = Inr ([frame_index_node 5, user_node [0], user_node [0, 0],
             frame_reference 5, zero_constant, add16ri_zero 3 4], Some 5)
   \<and> \<not> hasOneUse [frame_index_node 5, user_node [0], user_node [0, 0]] 0
   \<and> Select no_SelectCode [add16ri_zero 1 2, frame_reference 5, zero_constant] 0
     = Inr ([add16ri_zero 1 2, frame_reference 5, zero_constant], None)"
proof -
  let ?g1 = "[frame_index_node 5, user_node [0]]"
  let ?g2 = "[frame_index_node 5, user_node [0], user_node [0, 0]]"
  let ?g3 = "[add16ri_zero 1 2, frame_reference 5, zero_constant]"
  have u1: "hasOneUse ?g1 0"
    by (simp add: hasOneUse_def use_count_def frame_index_node_def user_node_def)
  have u2: "\<not> hasOneUse ?g2 0"
    by (simp add: hasOneUse_def use_count_def frame_index_node_def user_node_def)
  have f: "NodeOpcode (frame_index_node 5) = Opc_FrameIndex" "ValueType (frame_index_node 5) = i16"
    "Payload (frame_index_node 5) = 5"
    by (simp_all add: frame_index_node_def)
  have m: "isMachineOpcode (add16ri_zero 1 2)"
    by (simp add: isMachineOpcode_def add16ri_zero_def)
  show ?thesis
    using frame_index_selection[of 0 ?g1 no_SelectCode] frame_index_selection[of 0 ?g2 no_SelectCode]
      frame_index_selection[of 0 ?g3 no_SelectCode] u1 u2 f m
    by (simp add: eval_nat_numeral)
qed

end
